theory Spec2Isabelle
  imports Complex_Main "HOL-Library.Log_Nat"
begin

section \<open>Conventions of the embedding\<close>

text \<open>
  The library passes token amounts around as decimal strings (\<^verbatim>\<open>'1.5'\<close>) and as
  raw base-unit strings (wei, 18 decimals). A decimal string is represented by the
  rational number it denotes and a raw amount by an integer; the strings are decimal
  numerals without superfluous zeros, as \<^verbatim>\<open>fromWei\<close> and \<^verbatim>\<open>String\<close> produce
  them, and malformed numerals are outside the model. \<^verbatim>\<open>Decimal\<close> and \<^verbatim>\<open>BigNumber\<close> comparisons and products are
  exact on these numbers. A JavaScript value that may be \<^verbatim>\<open>null\<close> is an \<open>option\<close>,
  a thrown \<^verbatim>\<open>Error\<close> is the left summand of a sum type.

  \<^verbatim>\<open>web3.utils.fromWei\<close> and \<^verbatim>\<open>toWei\<close> scale by \<open>10 ^ 18\<close>. Where
  \<^verbatim>\<open>toWei\<close> is given a reserve read from the ledger, a whole number of raw units, it
  is exact and is the function \<open>toWei\<close>; where it is given an amount of the caller's,
  it is \<open>web3_toWei\<close>, which raises on a fraction longer than 18 decimals.
\<close>

type_synonym amount = rat

definition fromWei :: "int \<Rightarrow> amount" where
  "fromWei w = of_int w / 10 ^ 18"

definition toWei :: "amount \<Rightarrow> int" where
  "toWei a = \<lfloor>a * 10 ^ 18\<rfloor>"

datatype error = Error string

definition toWei_error :: error where
  "toWei_error = Error ''while converting number to wei, too many decimal places''"

definition web3_toWei :: "amount \<Rightarrow> error + int" where
  "web3_toWei a =
     (if of_int \<lfloor>a * 10 ^ 18\<rfloor> = a * 10 ^ 18 then Inr \<lfloor>a * 10 ^ 18\<rfloor> else Inl toWei_error)"

section \<open>JavaScript numbers\<close>

text \<open>
  \<^verbatim>\<open>parseFloat\<close> turns a decimal string into a Number, an IEEE 754 double, and the
  arithmetic of \<^verbatim>\<open>OceanPool.ts\<close> on such values (\<^verbatim>\<open>*\<close>, \<^verbatim>\<open>/\<close>, \<^verbatim>\<open>-\<close>) rounds
  its exact result to a double again. A finite double is represented by the rational it
  is; \<open>round_double\<close> rounds a rational to the nearest double, ties to the even
  significand, with 53 significant bits and the least unit \<open>2 ^ - 1074\<close> of the
  subnormal range. Amounts that overflow a double (from about \<open>1.8 * 10 ^ 308\<close>) are
  outside the model.
\<close>

definition nearest_even :: "int \<Rightarrow> rat \<Rightarrow> int" where
  "nearest_even f d =
     (if d < 1 / 2 then f else if 1 / 2 < d then f + 1 else if even f then f else f + 1)"

definition rne :: "rat \<Rightarrow> int" where
  "rne m = nearest_even \<lfloor>m\<rfloor> (m - of_int \<lfloor>m\<rfloor>)"

text \<open>The exponent \<open>k\<close> with \<open>2 ^ k \<le> a < 2 ^ (k + 1)\<close>, for a positive \<open>a\<close>.\<close>

definition binary_exponent :: "rat \<Rightarrow> int" where
  "binary_exponent a =
     (if 1 \<le> a then int (floorlog 2 (nat \<lfloor>a\<rfloor>)) - 1
      else - int (floorlog 2 (nat (\<lceil>1 / a\<rceil> - 1))))"

definition double_unit :: "rat \<Rightarrow> int" where
  "double_unit a = max (binary_exponent a - 52) (- 1074)"

definition round_to_unit :: "rat \<Rightarrow> rat \<Rightarrow> rat" where
  "round_to_unit a u = of_int (rne (a / u)) * u"

definition round_pos :: "rat \<Rightarrow> rat" where
  "round_pos a = round_to_unit a (2 powi double_unit a)"

definition round_double :: "rat \<Rightarrow> rat" where
  "round_double x = (if x = 0 then 0 else if 0 < x then round_pos x else - round_pos (- x))"

definition parseFloat :: "amount \<Rightarrow> rat" where
  "parseFloat a = round_double a"

text \<open>
  \<^verbatim>\<open>String(x)\<close> of a Number is the decimal with the fewest significant digits that
  reads back as \<open>x\<close>, and of those the one closest to \<open>x\<close> (the even one at a tie):
  for \<open>k = 1, 2, \<dots>\<close> digits the two \<open>k\<close>-digit decimals around \<open>x\<close> are tried.
  Seventeen digits always suffice.
\<close>

definition decimal_exponent :: "rat \<Rightarrow> int" where
  "decimal_exponent a =
     (if 1 \<le> a then int (floorlog 10 (nat \<lfloor>a\<rfloor>)) - 1
      else - int (floorlog 10 (nat (\<lceil>1 / a\<rceil> - 1))))"

definition decide :: "rat \<Rightarrow> int \<Rightarrow> rat \<Rightarrow> rat \<Rightarrow> rat \<Rightarrow> rat \<Rightarrow> rat option" where
  "decide m s lo hi rlo rhi =
     (if rlo = m \<and> rhi = m then
        Some (if m - lo < hi - m then lo else if hi - m < m - lo then hi
              else if even s then lo else hi)
      else if rlo = m then Some lo
      else if rhi = m then Some hi
      else None)"

definition between :: "rat \<Rightarrow> int \<Rightarrow> rat \<Rightarrow> rat option" where
  "between m s u =
     decide m s (of_int s * u) (of_int (s + 1) * u)
       (round_double (of_int s * u)) (round_double (of_int (s + 1) * u))"

definition candidate :: "rat \<Rightarrow> rat \<Rightarrow> rat option" where
  "candidate m u = between m \<lfloor>m / u\<rfloor> u"

fun shortest :: "rat \<Rightarrow> int \<Rightarrow> nat \<Rightarrow> nat \<Rightarrow> rat" where
  "shortest m n k 0 = m"
| "shortest m n k (Suc fuel) =
     (case candidate m (10 powi (n - int k)) of
        Some v \<Rightarrow> v
      | None \<Rightarrow> shortest m n (Suc k) fuel)"

definition number_to_string :: "rat \<Rightarrow> amount" where
  "number_to_string m =
     (if m = 0 then 0
      else if 0 < m then shortest m (decimal_exponent m + 1) 1 17
      else - shortest (- m) (decimal_exponent (- m) + 1) 1 17)"

section \<open>Dispenser.ts\<close>

text \<open>
  The fields of \<^verbatim>\<open>DispenserToken\<close> that \<^verbatim>\<open>Dispenser.ts\<close> reads. The contract
  call yields the three quantities in base units (\<open>int DispenserToken\<close>);
  \<^verbatim>\<open>status\<close> overwrites them with decimals (\<open>amount DispenserToken\<close>).
\<close>

record 'a DispenserToken =
  active :: bool
  maxTokens :: 'a
  maxBalance :: 'a
  balance :: 'a
  isMinter :: bool

text \<open>
  \<^verbatim>\<open>status(dtAdress)\<close>: the first argument is the answer of
  \<^verbatim>\<open>this.contract.methods.status(dtAdress).call()\<close>, \<open>None\<close> when it is falsy.
  The value handed back is the same (truthy) object with its amounts converted.
\<close>

definition status ::
  "(string \<Rightarrow> int DispenserToken option) \<Rightarrow> string \<Rightarrow> error + amount DispenserToken option" where
  "status contract dtAdress =
     (case contract dtAdress of
        None \<Rightarrow> Inl (Error ''Np dispenser found for the given datatoken address'')
      | Some st \<Rightarrow>
          Inr (Some \<lparr>active = active st,
                     maxTokens = fromWei (maxTokens st),
                     maxBalance = fromWei (maxBalance st),
                     balance = fromWei (balance st),
                     isMinter = isMinter st\<rparr>))"

text \<open>
  \<^verbatim>\<open>isDispensable(dtAddress, datatoken, address, amount = '1')\<close>. The collaborator
  \<^verbatim>\<open>datatoken.balance\<close> is a parameter that may throw; it is consulted only after the
  \<^verbatim>\<open>active\<close> check, as in the source. An omitted \<^verbatim>\<open>amount\<close> is \<open>None\<close>.
\<close>

definition isDispensable ::
  "(string \<Rightarrow> int DispenserToken option) \<Rightarrow> (string \<Rightarrow> string \<Rightarrow> error + amount) \<Rightarrow>
   string \<Rightarrow> string \<Rightarrow> amount option \<Rightarrow> error + bool" where
  "isDispensable contract datatoken dtAddress address amount_arg =
     (let amount = (case amount_arg of None \<Rightarrow> 1 | Some a \<Rightarrow> a) in
      case status contract dtAddress of
        Inl e \<Rightarrow> Inl e
      | Inr None \<Rightarrow> Inr False
      | Inr (Some st) \<Rightarrow>
          if active st = False then Inr False
          else (case datatoken dtAddress address of
                  Inl e \<Rightarrow> Inl e
                | Inr userBalance \<Rightarrow>
                    if userBalance \<ge> maxBalance st then Inr False
                    else if amount > maxTokens st then Inr False
                    else if balance st \<ge> amount \<or> isMinter st = True then Inr True
                    else Inr False))"

section \<open>OceanPool.ts: collaborators and state\<close>

text \<open>
  \<^verbatim>\<open>OceanPool\<close> extends \<^verbatim>\<open>Pool\<close>, whose methods talk to the ledger. They are
  parameters of the model, collected in the record \<open>Pool\<close>: a field gives the value a
  call returns (\<open>None\<close> for the \<^verbatim>\<open>null\<close> a failed transaction yields). The reads are
  a snapshot: the same call gives the same answer throughout one operation. A call returns;
  a collaborator that throws is outside the model.
\<close>

type_synonym address = string

record TransactionReceipt =
  transactionHash :: string
  BPoolRegistered :: address

record Pool =
  pool_getCurrentTokens :: "address \<Rightarrow> address list"
  pool_getReserve :: "address \<Rightarrow> address option \<Rightarrow> amount"
  pool_getDenormalizedWeight :: "address \<Rightarrow> address option \<Rightarrow> amount"
  pool_getSwapFee :: "address \<Rightarrow> amount"
  pool_getPoolSharesTotalSupply :: "address \<Rightarrow> amount"
  pool_getTotalDenormalizedWeight :: "address \<Rightarrow> amount"
  pool_sharesBalance :: "address \<Rightarrow> address \<Rightarrow> amount"
  pool_calcInGivenOut ::
    "address \<Rightarrow> amount \<Rightarrow> amount \<Rightarrow> amount \<Rightarrow> amount \<Rightarrow> amount \<Rightarrow> amount \<Rightarrow> amount"
  pool_calcOutGivenIn ::
    "address \<Rightarrow> amount \<Rightarrow> amount \<Rightarrow> amount \<Rightarrow> amount \<Rightarrow> amount \<Rightarrow> amount \<Rightarrow> amount"
  pool_calcPoolInGivenSingleOut ::
    "address \<Rightarrow> amount \<Rightarrow> amount \<Rightarrow> amount \<Rightarrow> amount \<Rightarrow> amount \<Rightarrow> amount \<Rightarrow> amount"
  pool_approve :: "address \<Rightarrow> address option \<Rightarrow> address \<Rightarrow> int \<Rightarrow> TransactionReceipt option"
  pool_swapExactAmountOut ::
    "address \<Rightarrow> address \<Rightarrow> address option \<Rightarrow> amount \<Rightarrow> address option \<Rightarrow> amount \<Rightarrow>
     amount option \<Rightarrow> TransactionReceipt option"
  pool_swapExactAmountIn ::
    "address \<Rightarrow> address \<Rightarrow> address option \<Rightarrow> amount \<Rightarrow> address option \<Rightarrow> amount \<Rightarrow>
     amount option \<Rightarrow> TransactionReceipt option"
  pool_joinswapExternAmountIn ::
    "address \<Rightarrow> address \<Rightarrow> address option \<Rightarrow> amount \<Rightarrow> amount \<Rightarrow> TransactionReceipt option"
  pool_exitswapExternAmountOut ::
    "address \<Rightarrow> address \<Rightarrow> address option \<Rightarrow> amount \<Rightarrow> amount \<Rightarrow> TransactionReceipt option"
  pool_exitPool :: "address \<Rightarrow> address \<Rightarrow> amount \<Rightarrow> amount list \<Rightarrow> TransactionReceipt option"
  pool_createPool :: "address \<Rightarrow> TransactionReceipt option"
  pool_setup ::
    "address \<Rightarrow> address \<Rightarrow> address \<Rightarrow> int \<Rightarrow> int \<Rightarrow> address option \<Rightarrow> int \<Rightarrow> int \<Rightarrow> int \<Rightarrow>
     TransactionReceipt option"

datatype PoolCreateProgressStep = CreatingPool | ApprovingDatatoken | ApprovingOcean | SetupPool

text \<open>
  Everything an operation does besides returning is recorded, in order: a read of the
  ledger (by the name of the \<^verbatim>\<open>Pool\<close> method), a state-changing transaction with its
  arguments, a message to \<^verbatim>\<open>this.logger.error\<close>, a progress step given to the
  observer of \<^verbatim>\<open>create\<close>.
\<close>

datatype event =
    LedgerRead string
  | Approve address "address option" address int
  | SwapExactAmountOut address address "address option" amount "address option" amount
      "amount option"
  | SwapExactAmountIn address address "address option" amount "address option" amount
      "amount option"
  | JoinswapExternAmountIn address address "address option" amount amount
  | ExitswapExternAmountOut address address "address option" amount amount
  | ExitPool address address amount "amount list"
  | CreatePool address
  | Setup address address address int int "address option" int int int
  | LoggerError string
  | ObserverNext PoolCreateProgressStep

fun is_read :: "event \<Rightarrow> bool" where
  "is_read (LedgerRead n) = True"
| "is_read e = False"

fun is_transaction :: "event \<Rightarrow> bool" where
  "is_transaction (LedgerRead n) = False"
| "is_transaction (LoggerError m) = False"
| "is_transaction (ObserverNext p) = False"
| "is_transaction e = True"

text \<open>
  The two fields of an \<^verbatim>\<open>OceanPool\<close> object that its methods read and assign, and the
  events issued so far.
\<close>

record state =
  oceanAddress :: "address option"
  dtAddress :: "address option"
  trace :: "event list"

definition emit :: "event \<Rightarrow> state \<Rightarrow> state" where
  "emit e s = s\<lparr>trace := trace s @ [e]\<rparr>"

definition logger_error :: "string \<Rightarrow> state \<Rightarrow> state" where
  "logger_error msg s = emit (LoggerError msg) s"

definition observer_next :: "PoolCreateProgressStep \<Rightarrow> state \<Rightarrow> state" where
  "observer_next p s = emit (ObserverNext p) s"

subsection \<open>Calls into \<^verbatim>\<open>Pool\<close>\<close>

definition super_getCurrentTokens :: "Pool \<Rightarrow> address \<Rightarrow> state \<Rightarrow> address list \<times> state" where
  "super_getCurrentTokens P poolAddress s =
     (pool_getCurrentTokens P poolAddress, emit (LedgerRead ''getCurrentTokens'') s)"

definition super_getReserve ::
  "Pool \<Rightarrow> address \<Rightarrow> address option \<Rightarrow> state \<Rightarrow> amount \<times> state" where
  "super_getReserve P poolAddress token s =
     (pool_getReserve P poolAddress token, emit (LedgerRead ''getReserve'') s)"

definition super_getDenormalizedWeight ::
  "Pool \<Rightarrow> address \<Rightarrow> address option \<Rightarrow> state \<Rightarrow> amount \<times> state" where
  "super_getDenormalizedWeight P poolAddress token s =
     (pool_getDenormalizedWeight P poolAddress token, emit (LedgerRead ''getDenormalizedWeight'') s)"

definition super_getSwapFee :: "Pool \<Rightarrow> address \<Rightarrow> state \<Rightarrow> amount \<times> state" where
  "super_getSwapFee P poolAddress s =
     (pool_getSwapFee P poolAddress, emit (LedgerRead ''getSwapFee'') s)"

definition super_getPoolSharesTotalSupply :: "Pool \<Rightarrow> address \<Rightarrow> state \<Rightarrow> amount \<times> state" where
  "super_getPoolSharesTotalSupply P poolAddress s =
     (pool_getPoolSharesTotalSupply P poolAddress, emit (LedgerRead ''getPoolSharesTotalSupply'') s)"

definition super_getTotalDenormalizedWeight :: "Pool \<Rightarrow> address \<Rightarrow> state \<Rightarrow> amount \<times> state" where
  "super_getTotalDenormalizedWeight P poolAddress s =
     (pool_getTotalDenormalizedWeight P poolAddress,
      emit (LedgerRead ''getTotalDenormalizedWeight'') s)"

definition super_sharesBalance :: "Pool \<Rightarrow> address \<Rightarrow> address \<Rightarrow> state \<Rightarrow> amount \<times> state" where
  "super_sharesBalance P account poolAddress s =
     (pool_sharesBalance P account poolAddress, emit (LedgerRead ''sharesBalance'') s)"

definition super_calcInGivenOut ::
  "Pool \<Rightarrow> address \<Rightarrow> amount \<Rightarrow> amount \<Rightarrow> amount \<Rightarrow> amount \<Rightarrow> amount \<Rightarrow> amount \<Rightarrow> state \<Rightarrow>
   amount \<times> state" where
  "super_calcInGivenOut P poolAddress rIn wIn rOut wOut amountOut fee s =
     (pool_calcInGivenOut P poolAddress rIn wIn rOut wOut amountOut fee,
      emit (LedgerRead ''calcInGivenOut'') s)"

definition super_calcOutGivenIn ::
  "Pool \<Rightarrow> address \<Rightarrow> amount \<Rightarrow> amount \<Rightarrow> amount \<Rightarrow> amount \<Rightarrow> amount \<Rightarrow> amount \<Rightarrow> state \<Rightarrow>
   amount \<times> state" where
  "super_calcOutGivenIn P poolAddress rIn wIn rOut wOut amountIn fee s =
     (pool_calcOutGivenIn P poolAddress rIn wIn rOut wOut amountIn fee,
      emit (LedgerRead ''calcOutGivenIn'') s)"

definition super_calcPoolInGivenSingleOut ::
  "Pool \<Rightarrow> address \<Rightarrow> amount \<Rightarrow> amount \<Rightarrow> amount \<Rightarrow> amount \<Rightarrow> amount \<Rightarrow> amount \<Rightarrow> state \<Rightarrow>
   amount \<times> state" where
  "super_calcPoolInGivenSingleOut P poolAddress r w supply totalWeight amountOut fee s =
     (pool_calcPoolInGivenSingleOut P poolAddress r w supply totalWeight amountOut fee,
      emit (LedgerRead ''calcPoolInGivenSingleOut'') s)"

definition super_approve ::
  "Pool \<Rightarrow> address \<Rightarrow> address option \<Rightarrow> address \<Rightarrow> int \<Rightarrow> state \<Rightarrow>
   TransactionReceipt option \<times> state" where
  "super_approve P account token spender wei s =
     (pool_approve P account token spender wei, emit (Approve account token spender wei) s)"

definition super_swapExactAmountOut ::
  "Pool \<Rightarrow> address \<Rightarrow> address \<Rightarrow> address option \<Rightarrow> amount \<Rightarrow> address option \<Rightarrow> amount \<Rightarrow>
   amount option \<Rightarrow> state \<Rightarrow> TransactionReceipt option \<times> state" where
  "super_swapExactAmountOut P account poolAddress tokenIn maxAmountIn tokenOut amountOut maxPrice s =
     (pool_swapExactAmountOut P account poolAddress tokenIn maxAmountIn tokenOut amountOut maxPrice,
      emit (SwapExactAmountOut account poolAddress tokenIn maxAmountIn tokenOut amountOut maxPrice) s)"

definition super_swapExactAmountIn ::
  "Pool \<Rightarrow> address \<Rightarrow> address \<Rightarrow> address option \<Rightarrow> amount \<Rightarrow> address option \<Rightarrow> amount \<Rightarrow>
   amount option \<Rightarrow> state \<Rightarrow> TransactionReceipt option \<times> state" where
  "super_swapExactAmountIn P account poolAddress tokenIn amountIn tokenOut minAmountOut maxPrice s =
     (pool_swapExactAmountIn P account poolAddress tokenIn amountIn tokenOut minAmountOut maxPrice,
      emit (SwapExactAmountIn account poolAddress tokenIn amountIn tokenOut minAmountOut maxPrice) s)"

definition super_joinswapExternAmountIn ::
  "Pool \<Rightarrow> address \<Rightarrow> address \<Rightarrow> address option \<Rightarrow> amount \<Rightarrow> amount \<Rightarrow> state \<Rightarrow>
   TransactionReceipt option \<times> state" where
  "super_joinswapExternAmountIn P account poolAddress token amountIn minPoolOut s =
     (pool_joinswapExternAmountIn P account poolAddress token amountIn minPoolOut,
      emit (JoinswapExternAmountIn account poolAddress token amountIn minPoolOut) s)"

definition super_exitswapExternAmountOut ::
  "Pool \<Rightarrow> address \<Rightarrow> address \<Rightarrow> address option \<Rightarrow> amount \<Rightarrow> amount \<Rightarrow> state \<Rightarrow>
   TransactionReceipt option \<times> state" where
  "super_exitswapExternAmountOut P account poolAddress token amountOut maxPoolIn s =
     (pool_exitswapExternAmountOut P account poolAddress token amountOut maxPoolIn,
      emit (ExitswapExternAmountOut account poolAddress token amountOut maxPoolIn) s)"

definition super_exitPool ::
  "Pool \<Rightarrow> address \<Rightarrow> address \<Rightarrow> amount \<Rightarrow> amount list \<Rightarrow> state \<Rightarrow>
   TransactionReceipt option \<times> state" where
  "super_exitPool P account poolAddress shares minAmountsOut s =
     (pool_exitPool P account poolAddress shares minAmountsOut,
      emit (ExitPool account poolAddress shares minAmountsOut) s)"

definition super_createPool ::
  "Pool \<Rightarrow> address \<Rightarrow> state \<Rightarrow> TransactionReceipt option \<times> state" where
  "super_createPool P account s = (pool_createPool P account, emit (CreatePool account) s)"

definition super_setup ::
  "Pool \<Rightarrow> address \<Rightarrow> address \<Rightarrow> address \<Rightarrow> int \<Rightarrow> int \<Rightarrow> address option \<Rightarrow> int \<Rightarrow> int \<Rightarrow> int \<Rightarrow>
   state \<Rightarrow> TransactionReceipt option \<times> state" where
  "super_setup P account poolAddress dt dtAmount dtWeight ocean oceanAmount oceanWeight fee s =
     (pool_setup P account poolAddress dt dtAmount dtWeight ocean oceanAmount oceanWeight fee,
      emit (Setup account poolAddress dt dtAmount dtWeight ocean oceanAmount oceanWeight fee) s)"

section \<open>OceanPool.ts: the methods\<close>

definition POOL_MAX_AMOUNT_IN_LIMIT :: rat where
  "POOL_MAX_AMOUNT_IN_LIMIT = 25 / 100"

definition POOL_MAX_AMOUNT_OUT_LIMIT :: rat where
  "POOL_MAX_AMOUNT_OUT_LIMIT = 25 / 100"

text \<open>\<^verbatim>\<open>integerValue(BigNumber.ROUND_DOWN)\<close> rounds towards zero.\<close>

definition integerValue_ROUND_DOWN :: "rat \<Rightarrow> int" where
  "integerValue_ROUND_DOWN x = (if x < 0 then \<lceil>x\<rceil> else \<lfloor>x\<rfloor>)"

text \<open>
  \<^verbatim>\<open>getDTAddress\<close> clears \<^verbatim>\<open>this.dtAddress\<close>, then assigns it every current token
  that differs from \<^verbatim>\<open>this.oceanAddress\<close>, in order; the last one stays.
\<close>

primrec getDTAddress_loop :: "address option \<Rightarrow> address list \<Rightarrow> address option \<Rightarrow> address option" where
  "getDTAddress_loop ocean [] dt = dt"
| "getDTAddress_loop ocean (token # tokens) dt =
     getDTAddress_loop ocean tokens (if Some token \<noteq> ocean then Some token else dt)"

definition getDTAddress :: "Pool \<Rightarrow> address \<Rightarrow> state \<Rightarrow> address option \<times> state" where
  "getDTAddress P poolAddress s0 =
     (let s1 = s0\<lparr>dtAddress := None\<rparr>;
          (tokens, s2) = super_getCurrentTokens P poolAddress s1;
          s3 = s2\<lparr>dtAddress := getDTAddress_loop (oceanAddress s2) tokens (dtAddress s2)\<rparr>
      in (dtAddress s3, s3))"

definition getMaxBuyQuantity ::
  "Pool \<Rightarrow> address \<Rightarrow> address option \<Rightarrow> state \<Rightarrow> amount \<times> state" where
  "getMaxBuyQuantity P poolAddress tokenAddress s =
     (let (bal, s1) = super_getReserve P poolAddress tokenAddress s
      in (number_to_string (round_double (parseFloat bal / 3)), s1))"

definition getOceanMaxBuyQuantity :: "Pool \<Rightarrow> address \<Rightarrow> state \<Rightarrow> amount \<times> state" where
  "getOceanMaxBuyQuantity P poolAddress s =
     getMaxBuyQuantity P poolAddress (oceanAddress s) s"

definition getDTMaxBuyQuantity :: "Pool \<Rightarrow> address \<Rightarrow> state \<Rightarrow> amount \<times> state" where
  "getDTMaxBuyQuantity P poolAddress s =
     (let (dtAddr, s1) = getDTAddress P poolAddress s
      in getMaxBuyQuantity P poolAddress dtAddr s1)"

definition calcInGivenOut ::
  "Pool \<Rightarrow> address \<Rightarrow> address option \<Rightarrow> address option \<Rightarrow> amount \<Rightarrow> state \<Rightarrow> amount \<times> state" where
  "calcInGivenOut P poolAddress tokenInAddress tokenOutAddress tokenOutAmount s =
     (let (rIn, s1) = super_getReserve P poolAddress tokenInAddress s;
          (wIn, s2) = super_getDenormalizedWeight P poolAddress tokenInAddress s1;
          (rOut, s3) = super_getReserve P poolAddress tokenOutAddress s2;
          (wOut, s4) = super_getDenormalizedWeight P poolAddress tokenOutAddress s3;
          (fee, s5) = super_getSwapFee P poolAddress s4
      in super_calcInGivenOut P poolAddress rIn wIn rOut wOut tokenOutAmount fee s5)"

definition calcOutGivenIn ::
  "Pool \<Rightarrow> address \<Rightarrow> address option \<Rightarrow> address option \<Rightarrow> amount \<Rightarrow> state \<Rightarrow> amount \<times> state" where
  "calcOutGivenIn P poolAddress tokenInAddress tokenOutAddress tokenInAmount s =
     (let (rIn, s1) = super_getReserve P poolAddress tokenInAddress s;
          (wIn, s2) = super_getDenormalizedWeight P poolAddress tokenInAddress s1;
          (rOut, s3) = super_getReserve P poolAddress tokenOutAddress s2;
          (wOut, s4) = super_getDenormalizedWeight P poolAddress tokenOutAddress s3;
          (fee, s5) = super_getSwapFee P poolAddress s4
      in super_calcOutGivenIn P poolAddress rIn wIn rOut wOut tokenInAmount fee s5)"

definition calcPoolInGivenSingleOut ::
  "Pool \<Rightarrow> address \<Rightarrow> address option \<Rightarrow> amount \<Rightarrow> state \<Rightarrow> amount \<times> state" where
  "calcPoolInGivenSingleOut P poolAddress tokenOutAddress tokenOutAmount s =
     (let (r, s1) = super_getReserve P poolAddress tokenOutAddress s;
          (w, s2) = super_getDenormalizedWeight P poolAddress tokenOutAddress s1;
          (supply, s3) = super_getPoolSharesTotalSupply P poolAddress s2;
          (totalWeight, s4) = super_getTotalDenormalizedWeight P poolAddress s3;
          (fee, s5) = super_getSwapFee P poolAddress s4
      in super_calcPoolInGivenSingleOut P poolAddress r w supply totalWeight tokenOutAmount fee s5)"

definition getPoolSharesRequiredToRemoveDT ::
  "Pool \<Rightarrow> address \<Rightarrow> amount \<Rightarrow> state \<Rightarrow> amount \<times> state" where
  "getPoolSharesRequiredToRemoveDT P poolAddress dtAmount s =
     (let (dtAddr, s1) = getDTAddress P poolAddress s
      in calcPoolInGivenSingleOut P poolAddress dtAddr dtAmount s1)"

definition getPoolSharesRequiredToRemoveOcean ::
  "Pool \<Rightarrow> address \<Rightarrow> amount \<Rightarrow> state \<Rightarrow> amount \<times> state" where
  "getPoolSharesRequiredToRemoveOcean P poolAddress oceanAmount s =
     calcPoolInGivenSingleOut P poolAddress (oceanAddress s) oceanAmount s"

text \<open>
  In the next two functions \<^verbatim>\<open>parseFloat(balance) > 0\<close> tests the sign of the
  reserve, and the \<^verbatim>\<open>BigNumber\<close> arithmetic is exact.
\<close>

definition getMaxAddLiquidity ::
  "Pool \<Rightarrow> address \<Rightarrow> address option \<Rightarrow> state \<Rightarrow> amount \<times> state" where
  "getMaxAddLiquidity P poolAddress tokenAddress s =
     (let (bal, s1) = super_getReserve P poolAddress tokenAddress s
      in if bal > 0 then
           (let result =
                  integerValue_ROUND_DOWN (of_int (toWei bal) * POOL_MAX_AMOUNT_IN_LIMIT) - 1
            in (fromWei result, s1))
         else (0, s1))"

definition getMaxRemoveLiquidity ::
  "Pool \<Rightarrow> address \<Rightarrow> address option \<Rightarrow> state \<Rightarrow> amount \<times> state" where
  "getMaxRemoveLiquidity P poolAddress tokenAddress s =
     (let (bal, s1) = super_getReserve P poolAddress tokenAddress s
      in if bal > 0 then
           (let result =
                  integerValue_ROUND_DOWN (of_int (toWei bal) * POOL_MAX_AMOUNT_OUT_LIMIT) - 1
            in (fromWei result, s1))
         else (0, s1))"

definition getDTMaxAddLiquidity :: "Pool \<Rightarrow> address \<Rightarrow> state \<Rightarrow> amount \<times> state" where
  "getDTMaxAddLiquidity P poolAddress s =
     (let (dtAddr, s1) = getDTAddress P poolAddress s
      in getMaxAddLiquidity P poolAddress dtAddr s1)"

definition getOceanMaxAddLiquidity :: "Pool \<Rightarrow> address \<Rightarrow> state \<Rightarrow> amount \<times> state" where
  "getOceanMaxAddLiquidity P poolAddress s =
     getMaxAddLiquidity P poolAddress (oceanAddress s) s"

definition getDTMaxRemoveLiquidity :: "Pool \<Rightarrow> address \<Rightarrow> state \<Rightarrow> amount \<times> state" where
  "getDTMaxRemoveLiquidity P poolAddress s =
     (let (dtAddr, s1) = getDTAddress P poolAddress s
      in getMaxRemoveLiquidity P poolAddress dtAddr s1)"

definition getOceanMaxRemoveLiquidity :: "Pool \<Rightarrow> address \<Rightarrow> state \<Rightarrow> amount \<times> state" where
  "getOceanMaxRemoveLiquidity P poolAddress s =
     getMaxRemoveLiquidity P poolAddress (oceanAddress s) s"

definition getOceanNeeded :: "Pool \<Rightarrow> address \<Rightarrow> amount \<Rightarrow> state \<Rightarrow> amount \<times> state" where
  "getOceanNeeded P poolAddress dtRequired s =
     (let (dtAddr, s1) = getDTAddress P poolAddress s
      in calcInGivenOut P poolAddress (oceanAddress s1) dtAddr dtRequired s1)"

definition getOceanReceived :: "Pool \<Rightarrow> address \<Rightarrow> amount \<Rightarrow> state \<Rightarrow> amount \<times> state" where
  "getOceanReceived P poolAddress dtSold s =
     (let (dtAddr, s1) = getDTAddress P poolAddress s
      in calcOutGivenIn P poolAddress dtAddr (oceanAddress s1) dtSold s1)"

subsection \<open>Swaps\<close>

text \<open>
  The operations that call \<^verbatim>\<open>web3.utils.toWei\<close> on an amount of the caller's may
  throw: they answer \<open>Inl\<close> the error, \<open>Inr None\<close> for \<^verbatim>\<open>null\<close> and
  \<open>Inr (Some receipt)\<close> for a receipt.
\<close>

definition buyDT ::
  "Pool \<Rightarrow> address \<Rightarrow> address \<Rightarrow> amount \<Rightarrow> amount \<Rightarrow> amount option \<Rightarrow> state \<Rightarrow>
   (error + TransactionReceipt option) \<times> state" where
  "buyDT P account poolAddress dtAmountWanted maxOceanAmount maxPrice s0 =
     (if oceanAddress s0 = None then
        (Inr None, logger_error ''ERROR: undefined ocean token contract address'' s0)
      else
        let (dtAddr, s1) = getDTAddress P poolAddress s0;
            (maxBuy, s2) = getDTMaxBuyQuantity P poolAddress s1
        in if parseFloat dtAmountWanted > parseFloat maxBuy then
             (Inr None, logger_error ''ERROR: Buy quantity exceeds quantity allowed'' s2)
           else
             let (inGivenOut, s3) = getOceanNeeded P poolAddress dtAmountWanted s2
             in if parseFloat inGivenOut > parseFloat maxOceanAmount then
                  (Inr None, logger_error ''ERROR: Not enough Ocean Tokens'' s3)
                else
                  case web3_toWei maxOceanAmount of
                    Inl e \<Rightarrow> (Inl e, s3)
                  | Inr wei \<Rightarrow>
                      let (txid, s4) =
                            super_approve P account (oceanAddress s3) poolAddress wei s3
                      in if txid = None then
                           (Inr None, logger_error ''ERROR: OCEAN approve failed'' s4)
                         else
                           let (receipt, s5) =
                                 super_swapExactAmountOut P account poolAddress (oceanAddress s4)
                                   maxOceanAmount dtAddr dtAmountWanted maxPrice s4
                           in (Inr receipt, s5))"

definition sellDT ::
  "Pool \<Rightarrow> address \<Rightarrow> address \<Rightarrow> amount \<Rightarrow> amount \<Rightarrow> amount option \<Rightarrow> state \<Rightarrow>
   (error + TransactionReceipt option) \<times> state" where
  "sellDT P account poolAddress dtAmount oceanAmountWanted maxPrice s0 =
     (if oceanAddress s0 = None then
        (Inr None, logger_error ''ERROR: oceanAddress is not defined'' s0)
      else
        let (dtAddr, s1) = getDTAddress P poolAddress s0;
            (maxBuy, s2) = getOceanMaxBuyQuantity P poolAddress s1
        in if parseFloat oceanAmountWanted > parseFloat maxBuy then
             (Inr None, logger_error ''ERROR: Buy quantity exceeds quantity allowed'' s2)
           else
             let (outGivenIn, s3) = getOceanReceived P poolAddress dtAmount s2
             in if parseFloat outGivenIn < parseFloat oceanAmountWanted then
                  (Inr None, logger_error ''ERROR: Not enough datatokens'' s3)
                else
                  case web3_toWei dtAmount of
                    Inl e \<Rightarrow> (Inl e, s3)
                  | Inr wei \<Rightarrow>
                      let (txid, s4) = super_approve P account dtAddr poolAddress wei s3
                      in if txid = None then
                           (Inr None, logger_error ''ERROR: DT approve failed'' s4)
                         else
                           let (receipt, s5) =
                                 super_swapExactAmountIn P account poolAddress dtAddr dtAmount
                                   (oceanAddress s4) oceanAmountWanted maxPrice s4
                           in (Inr receipt, s5))"

subsection \<open>Single-asset liquidity\<close>

definition addDTLiquidity ::
  "Pool \<Rightarrow> address \<Rightarrow> address \<Rightarrow> amount \<Rightarrow> state \<Rightarrow>
   (error + TransactionReceipt option) \<times> state" where
  "addDTLiquidity P account poolAddress amt s0 =
     (let (dtAddr, s1) = getDTAddress P poolAddress s0;
          (maxAmount, s2) = getMaxAddLiquidity P poolAddress dtAddr s1
      in if parseFloat amt > parseFloat maxAmount then
           (Inr None, logger_error ''ERROR: Too much reserve to add'' s2)
         else
           case web3_toWei amt of
             Inl e \<Rightarrow> (Inl e, s2)
           | Inr wei \<Rightarrow>
               let (txid, s3) = super_approve P account dtAddr poolAddress wei s2
               in if txid = None then
                    (Inr None, logger_error ''ERROR: DT approve failed'' s3)
                  else
                    let (receipt, s4) =
                          super_joinswapExternAmountIn P account poolAddress dtAddr amt 0 s3
                    in (Inr receipt, s4))"

text \<open>
  The two removals call no \<^verbatim>\<open>toWei\<close> themselves. The assignment under
  \<^verbatim>\<open>// Balancer bug fix\<close> is \<open>maximumPoolShares'\<close>.
\<close>

definition removeDTLiquidity ::
  "Pool \<Rightarrow> address \<Rightarrow> address \<Rightarrow> amount \<Rightarrow> amount \<Rightarrow> state \<Rightarrow>
   TransactionReceipt option \<times> state" where
  "removeDTLiquidity P account poolAddress amt maximumPoolShares s0 =
     (let (dtAddr, s1) = getDTAddress P poolAddress s0;
          (maxAmount, s2) = getDTMaxRemoveLiquidity P poolAddress s1
      in if parseFloat amt > parseFloat maxAmount then
           (None, logger_error ''ERROR: Too much reserve to remove'' s2)
         else
           let (usershares, s3) = super_sharesBalance P account poolAddress s2
           in if parseFloat usershares < parseFloat maximumPoolShares then
                (None, logger_error ''ERROR: Not enough poolShares'' s3)
              else
                let (sharesRequired, s4) = getPoolSharesRequiredToRemoveDT P poolAddress amt s3
                in if parseFloat maximumPoolShares < parseFloat sharesRequired then
                     (None, logger_error ''ERROR: Not enough poolShares'' s4)
                   else
                     let maximumPoolShares' =
                           (if parseFloat maximumPoolShares < parseFloat sharesRequired
                            then number_to_string
                                   (round_double
                                      (parseFloat maximumPoolShares * round_double (9999 / 10000)))
                            else maximumPoolShares)
                     in super_exitswapExternAmountOut P account poolAddress dtAddr amt
                          maximumPoolShares' s4)"

definition addOceanLiquidity ::
  "Pool \<Rightarrow> address \<Rightarrow> address \<Rightarrow> amount \<Rightarrow> state \<Rightarrow>
   (error + TransactionReceipt option) \<times> state" where
  "addOceanLiquidity P account poolAddress amt s0 =
     (if oceanAddress s0 = None then
        (Inr None, logger_error ''ERROR: oceanAddress is not defined'' s0)
      else
        let (maxAmount, s1) = getOceanMaxAddLiquidity P poolAddress s0
        in if parseFloat amt > parseFloat maxAmount then
             (Inr None, logger_error ''ERROR: Too much reserve to add'' s1)
           else
             case web3_toWei amt of
               Inl e \<Rightarrow> (Inl e, s1)
             | Inr wei \<Rightarrow>
                 let (txid, s2) = super_approve P account (oceanAddress s1) poolAddress wei s1
                 in if txid = None then
                      (Inr None, logger_error ''ERROR: OCEAN approve failed'' s2)
                    else
                      let (receipt, s3) =
                            super_joinswapExternAmountIn P account poolAddress (oceanAddress s2)
                              amt 0 s2
                      in (Inr receipt, s3))"

definition removeOceanLiquidity ::
  "Pool \<Rightarrow> address \<Rightarrow> address \<Rightarrow> amount \<Rightarrow> amount \<Rightarrow> state \<Rightarrow>
   TransactionReceipt option \<times> state" where
  "removeOceanLiquidity P account poolAddress amt maximumPoolShares s0 =
     (if oceanAddress s0 = None then
        (None, logger_error ''ERROR: oceanAddress is not defined'' s0)
      else
        let (maxAmount, s1) = getOceanMaxRemoveLiquidity P poolAddress s0
        in if parseFloat amt > parseFloat maxAmount then
             (None, logger_error ''ERROR: Too much reserve to remove'' s1)
           else
             let (usershares, s2) = super_sharesBalance P account poolAddress s1
             in if parseFloat usershares < parseFloat maximumPoolShares then
                  (None, logger_error ''ERROR: Not enough poolShares'' s2)
                else
                  let (sharesRequired, s3) =
                        getPoolSharesRequiredToRemoveOcean P poolAddress amt s2
                  in if parseFloat maximumPoolShares < parseFloat sharesRequired then
                       (None, logger_error ''ERROR: Not enough poolShares'' s3)
                     else
                       let maximumPoolShares' =
                             (if parseFloat maximumPoolShares < parseFloat sharesRequired
                              then number_to_string
                                     (round_double
                                        (parseFloat maximumPoolShares *
                                         round_double (9999 / 10000)))
                              else maximumPoolShares)
                       in super_exitswapExternAmountOut P account poolAddress (oceanAddress s3)
                            amt maximumPoolShares' s3)"

subsection \<open>Full exit and pool creation\<close>

text \<open>\<^verbatim>\<open>minDT\<close> and \<^verbatim>\<open>minOcean\<close> default to \<^verbatim>\<open>'0'\<close> when omitted (\<open>None\<close>).\<close>

definition removePoolLiquidity ::
  "Pool \<Rightarrow> address \<Rightarrow> address \<Rightarrow> amount \<Rightarrow> amount option \<Rightarrow> amount option \<Rightarrow> state \<Rightarrow>
   TransactionReceipt option \<times> state" where
  "removePoolLiquidity P account poolAddress poolShares minDT_arg minOcean_arg s0 =
     (let minDT = (case minDT_arg of None \<Rightarrow> 0 | Some m \<Rightarrow> m);
          minOcean = (case minOcean_arg of None \<Rightarrow> 0 | Some m \<Rightarrow> m);
          (usershares, s1) = super_sharesBalance P account poolAddress s0
      in if parseFloat usershares < parseFloat poolShares then
           (None, logger_error ''ERROR: Not enough poolShares'' s1)
         else
           let poolShares' =
                 (if parseFloat usershares = parseFloat poolShares
                  then number_to_string
                         (round_double (parseFloat poolShares * round_double (9999 / 10000)))
                  else poolShares)
           in super_exitPool P account poolAddress poolShares' [minDT, minOcean] s1)"

text \<open>
  \<^verbatim>\<open>create\<close> answers \<^verbatim>\<open>null\<close> at once when a parameter check fails (outer
  \<open>None\<close>); otherwise it answers a promise (outer \<open>Some\<close>) that is rejected with an
  error of \<^verbatim>\<open>toWei\<close>, or resolves to \<^verbatim>\<open>null\<close> or to the receipt of
  \<^verbatim>\<open>createPool\<close>. \<^verbatim>\<open>String\<close> of an amount that is a string already is that string.
\<close>

definition create ::
  "Pool \<Rightarrow> address \<Rightarrow> address \<Rightarrow> amount \<Rightarrow> amount \<Rightarrow> amount \<Rightarrow> amount \<Rightarrow> state \<Rightarrow>
   (error + TransactionReceipt option) option \<times> state" where
  "create P account dtAddr dtAmount dtWeight oceanAmount fee s0 =
     (if oceanAddress s0 = None then
        (None, logger_error ''ERROR: oceanAddress is not defined'' s0)
      else if parseFloat fee > round_double (1 / 10) then
        (None, logger_error
           ''ERROR: Swap fee too high. The maximum allowed swapFee is 10%'' s0)
      else if parseFloat dtAmount < 2 then
        (None, logger_error ''ERROR: Amount of DT is too low'' s0)
      else if parseFloat dtWeight > 9 \<or> parseFloat dtWeight < 1 then
        (None, logger_error ''ERROR: Weight out of bounds (min 1, max9)'' s0)
      else
        let s1 = observer_next CreatingPool s0;
            (createTxid, s2) = super_createPool P account s1
        in case createTxid of
             None \<Rightarrow>
               (Some (Inr None), logger_error ''ERROR: Failed to call approve DT token'' s2)
           | Some receipt \<Rightarrow>
               let addr = BPoolRegistered receipt;
                   oceanWeight = round_double (10 - parseFloat dtWeight);
                   s3 = s2\<lparr>dtAddress := Some dtAddr\<rparr>;
                   s4 = observer_next ApprovingDatatoken s3
               in case web3_toWei dtAmount of
                    Inl e \<Rightarrow> (Some (Inl e), s4)
                  | Inr dtAmountWei \<Rightarrow>
                      let (txid, s5) =
                            super_approve P account (Some dtAddr) addr dtAmountWei s4
                      in if txid = None then
                           (Some (Inr None),
                            logger_error ''ERROR: Failed to call approve DT token'' s5)
                         else
                           let s6 = observer_next ApprovingOcean s5
                           in case web3_toWei oceanAmount of
                                Inl e \<Rightarrow> (Some (Inl e), s6)
                              | Inr oceanAmountWei \<Rightarrow>
                                  let (txid, s7) =
                                        super_approve P account (oceanAddress s6) addr
                                          oceanAmountWei s6
                                  in if txid = None then
                                       (Some (Inr None),
                                        logger_error
                                          ''ERROR: Failed to call approve OCEAN token'' s7)
                                     else
                                       let s8 = observer_next SetupPool s7
                                       in case web3_toWei dtWeight of
                                            Inl e \<Rightarrow> (Some (Inl e), s8)
                                          | Inr dtWeightWei \<Rightarrow>
                                              (case web3_toWei (number_to_string oceanWeight) of
                                                 Inl e \<Rightarrow> (Some (Inl e), s8)
                                               | Inr oceanWeightWei \<Rightarrow>
                                                   (case web3_toWei fee of
                                                      Inl e \<Rightarrow> (Some (Inl e), s8)
                                                    | Inr feeWei \<Rightarrow>
                                                        let (txid, s9) =
                                                              super_setup P account addr dtAddr
                                                                dtAmountWei dtWeightWei
                                                                (oceanAddress s8) oceanAmountWei
                                                                oceanWeightWei feeWei s8
                                                        in if txid = None then
                                                             (Some (Inr None),
                                                              logger_error
                                                                ''ERROR: Failed to create a new pool''
                                                                s9)
                                                           else (Some (Inr createTxid), s9))))"

section \<open>Auxiliary definitions for the statements\<close>

text \<open>
  The datatoken address \<^verbatim>\<open>getDTAddress\<close> finds for a pool, as a function of the
  ledger and of \<^verbatim>\<open>this.oceanAddress\<close>.
\<close>

definition currentDT :: "Pool \<Rightarrow> address \<Rightarrow> address option \<Rightarrow> address option" where
  "currentDT P poolAddress ocean =
     getDTAddress_loop ocean (pool_getCurrentTokens P poolAddress) None"

text \<open>
  The amount \<^verbatim>\<open>getMaxAddLiquidity\<close> and \<^verbatim>\<open>getMaxRemoveLiquidity\<close> compute from
  the reserve they read, for the limit constant of each.
\<close>

definition reserve_ceiling :: "rat \<Rightarrow> amount \<Rightarrow> amount" where
  "reserve_ceiling limit bal =
     (if bal > 0 then fromWei (integerValue_ROUND_DOWN (of_int (toWei bal) * limit) - 1) else 0)"

text \<open>The events an operation added to the trace of the state it started from.\<close>

definition issued :: "state \<Rightarrow> state \<Rightarrow> event list" where
  "issued s s' = drop (length (trace s)) (trace s')"

text \<open>
  A rejection as the code makes it: the operation returns \<^verbatim>\<open>null\<close> and the last
  thing it did was to write a message to \<^verbatim>\<open>this.logger.error\<close>.
\<close>

fun is_error_log :: "event \<Rightarrow> bool" where
  "is_error_log (LoggerError m) = True"
| "is_error_log e = False"

definition rejected :: "TransactionReceipt option \<times> state \<Rightarrow> bool" where
  "rejected r = (fst r = None \<and> is_error_log (last (trace (snd r))))"

text \<open>
  The same for an operation that may throw, and the one error it can throw: the one
  \<^verbatim>\<open>toWei\<close> raises.
\<close>

definition rejected_null :: "(error + TransactionReceipt option) \<times> state \<Rightarrow> bool" where
  "rejected_null r = (fst r = Inr None \<and> is_error_log (last (trace (snd r))))"

definition thrown :: "(error + TransactionReceipt option) \<times> state \<Rightarrow> bool" where
  "thrown r = (fst r = Inl toWei_error)"

text \<open>The value of an optional minimum (\<^verbatim>\<open>minDT = '0'\<close>, \<^verbatim>\<open>minOcean = '0'\<close>).\<close>

definition default_zero :: "amount option \<Rightarrow> amount" where
  "default_zero a = (case a of None \<Rightarrow> 0 | Some m \<Rightarrow> m)"

text \<open>
  A concrete ledger for the examples: the pool \<^verbatim>\<open>pool\<close> holds 12 datatokens
  (\<^verbatim>\<open>dt\<close>) and 120 OCEAN (\<^verbatim>\<open>ocean\<close>), the pool \<^verbatim>\<open>empty\<close> holds nothing, every
  account holds 10 pool shares, quotes are linear (10 OCEAN for a datatoken, 10 shares for
  a unit withdrawn) and every transaction succeeds with the same receipt. The dispenser
  \<open>contract0\<close> is active with \<^verbatim>\<open>maxTokens\<close> 5, \<^verbatim>\<open>maxBalance\<close> 2 and a reservoir
  of 3; every account holds one datatoken.
\<close>

definition receipt0 :: TransactionReceipt where
  "receipt0 = \<lparr>transactionHash = ''0x01'', BPoolRegistered = ''pool''\<rparr>"

definition P0 :: Pool where
  "P0 = \<lparr>pool_getCurrentTokens = (\<lambda>p. [''dt'', ''ocean'']),
          pool_getReserve = (\<lambda>p t. if p = ''empty'' then 0 else if t = Some ''dt'' then 12 else 120),
          pool_getDenormalizedWeight = (\<lambda>p t. 5),
          pool_getSwapFee = (\<lambda>p. 0),
          pool_getPoolSharesTotalSupply = (\<lambda>p. 100),
          pool_getTotalDenormalizedWeight = (\<lambda>p. 10),
          pool_sharesBalance = (\<lambda>a p. 10),
          pool_calcInGivenOut = (\<lambda>p rIn wIn rOut wOut amountOut fee. 10 * amountOut),
          pool_calcOutGivenIn = (\<lambda>p rIn wIn rOut wOut amountIn fee. 10 * amountIn),
          pool_calcPoolInGivenSingleOut = (\<lambda>p r w supply totalWeight amountOut fee. 10 * amountOut),
          pool_approve = (\<lambda>a t sp w. Some receipt0),
          pool_swapExactAmountOut = (\<lambda>a p tIn maxIn tOut amountOut maxPrice. Some receipt0),
          pool_swapExactAmountIn = (\<lambda>a p tIn amountIn tOut minOut maxPrice. Some receipt0),
          pool_joinswapExternAmountIn = (\<lambda>a p t amountIn minOut. Some receipt0),
          pool_exitswapExternAmountOut = (\<lambda>a p t amountOut maxIn. Some receipt0),
          pool_exitPool = (\<lambda>a p shares mins. Some receipt0),
          pool_createPool = (\<lambda>a. Some receipt0),
          pool_setup = (\<lambda>a p dt dtAmount dtWeight ocean oceanAmount oceanWeight fee. Some receipt0)\<rparr>"

text \<open>
  Three variants of it: \<open>P1\<close>, where every account holds 100 pool shares;
  \<open>P2\<close>, where every reserve is 10; \<open>P3\<close>, where the quote for buying is one raw
  unit above 10 OCEAN for a datatoken.
\<close>

definition P1 :: Pool where
  "P1 = P0\<lparr>pool_sharesBalance := (\<lambda>a p. 100)\<rparr>"

definition P2 :: Pool where
  "P2 = P0\<lparr>pool_getReserve := (\<lambda>p t. 10)\<rparr>"

definition P3 :: Pool where
  "P3 = P0\<lparr>pool_calcInGivenOut :=
             (\<lambda>p rIn wIn rOut wOut amountOut fee. 10 * amountOut + 1 / 10 ^ 18)\<rparr>"

definition s0 :: state where
  "s0 = \<lparr>oceanAddress = Some ''ocean'', dtAddress = None, trace = []\<rparr>"

definition s_unset :: state where
  "s_unset = \<lparr>oceanAddress = None, dtAddress = None, trace = []\<rparr>"

definition contract0 :: "string \<Rightarrow> int DispenserToken option" where
  "contract0 dt = Some \<lparr>active = True, maxTokens = 5 * 10 ^ 18, maxBalance = 2 * 10 ^ 18,
                        balance = 3 * 10 ^ 18, isMinter = False\<rparr>"

definition datatoken0 :: "string \<Rightarrow> string \<Rightarrow> error + amount" where
  "datatoken0 dt addr = Inr 1"

section \<open>Properties of the dispenser\<close>

text \<open>
  C5. Given the status record \<open>st\<close> that \<^verbatim>\<open>status\<close> returns and the recipient's
  balance \<open>bal\<close>, \<^verbatim>\<open>isDispensable\<close> answers true exactly when the dispenser is
  active, \<open>bal\<close> is strictly below \<open>maxBalance\<close>, the amount does not exceed
  \<open>maxTokens\<close>, and the reservoir balance covers the amount or the dispenser is a
  minter. With \<open>active = false\<close> the answer is false for every amount (zero and the
  omitted amount included) and whatever the balance lookup would do.
\<close>

theorem isDispensable_iff:
  assumes "status contract dt = Inr (Some st)"
  shows "(\<forall>bal. datatoken dt addr = Inr bal \<longrightarrow>
            isDispensable contract datatoken dt addr (Some amt) =
              Inr (active st \<and> bal < maxBalance st \<and> amt \<le> maxTokens st \<and>
                   (amt \<le> balance st \<or> isMinter st)))
       \<and> (\<not> active st \<longrightarrow> (\<forall>a. isDispensable contract datatoken dt addr a = Inr False))"
  using assms by (auto simp: isDispensable_def Let_def split: sum.splits option.splits)

theorem isDispensable_iff_witness:
  "status contract0 ''dt'' =
     Inr (Some \<lparr>active = True, maxTokens = 5, maxBalance = 2, balance = 3, isMinter = False\<rparr>)
   \<and> isDispensable contract0 datatoken0 ''dt'' ''alice'' (Some 3) = Inr True
   \<and> isDispensable contract0 datatoken0 ''dt'' ''alice'' (Some 4) = Inr False"
proof -
  have h: "status contract0 ''dt'' =
     Inr (Some \<lparr>active = True, maxTokens = 5, maxBalance = 2, balance = 3, isMinter = False\<rparr>)"
    by (simp add: status_def contract0_def fromWei_def)
  have d: "datatoken0 ''dt'' ''alice'' = Inr 1"
    by (simp add: datatoken0_def)
  show ?thesis
    using h d isDispensable_iff [OF h, of datatoken0 "''alice''" 3]
      isDispensable_iff [OF h, of datatoken0 "''alice''" 4]
    by simp
qed

text \<open>
  C10. When the contract call yields no record, \<^verbatim>\<open>status\<close> throws and
  \<^verbatim>\<open>isDispensable\<close> hands the same error on instead of answering false; and
  whenever \<^verbatim>\<open>status\<close> does return, the value is a record, so the
  \<^verbatim>\<open>if (!status) return false\<close> branch of \<^verbatim>\<open>isDispensable\<close> is never taken.
\<close>

theorem isDispensable_no_record:
  "(contract dt = None \<longrightarrow>
      status contract dt = Inl (Error ''Np dispenser found for the given datatoken address'')
      \<and> isDispensable contract datatoken dt addr a =
          Inl (Error ''Np dispenser found for the given datatoken address''))
   \<and> status contract dt \<noteq> Inr None"
  by (simp add: isDispensable_def status_def split: option.splits)

theorem isDispensable_no_record_witness:
  "isDispensable (\<lambda>_. None) datatoken0 ''dt'' ''alice'' (Some 0) =
     Inl (Error ''Np dispenser found for the given datatoken address'')
   \<and> isDispensable (\<lambda>_. None) datatoken0 ''dt'' ''alice'' (Some 0) \<noteq> Inr False"
  using isDispensable_no_record [of "\<lambda>_. None" "''dt''" datatoken0 "''alice''" "Some 0"]
  by simp

section \<open>Properties of the rounding to doubles\<close>

text \<open>
  Rounding is monotone on the amounts that are not negative, leaves a double as it is,
  and \<^verbatim>\<open>String\<close> of a double reads back as that double.
\<close>

lemma rne_of_int: "rne (of_int n) = n"
  by (simp add: rne_def nearest_even_def)

lemma rne_lower: "\<lfloor>m\<rfloor> \<le> rne m"
  by (simp add: rne_def nearest_even_def)

lemma rne_upper: "rne m \<le> \<lfloor>m\<rfloor> + 1"
  by (simp add: rne_def nearest_even_def)

lemma rne_mono:
  assumes "m \<le> m'"
  shows "rne m \<le> rne m'"
proof (cases "\<lfloor>m\<rfloor> < \<lfloor>m'\<rfloor>")
  case True
  have "rne m \<le> \<lfloor>m\<rfloor> + 1" by (rule rne_upper)
  also have "\<dots> \<le> \<lfloor>m'\<rfloor>" using True by simp
  also have "\<dots> \<le> rne m'" by (rule rne_lower)
  finally show ?thesis .
next
  case False
  with floor_mono [OF assms] have eq: "\<lfloor>m\<rfloor> = \<lfloor>m'\<rfloor>" by simp
  then have "m - of_int \<lfloor>m\<rfloor> \<le> m' - of_int \<lfloor>m'\<rfloor>" using assms by simp
  then show ?thesis using eq by (auto simp: rne_def nearest_even_def)
qed

lemma floorlog_2_bounds:
  assumes "0 < n"
  shows "1 \<le> floorlog 2 n" and "(2::rat) ^ (floorlog 2 n - 1) \<le> of_nat n"
    and "(of_nat n :: rat) + 1 \<le> 2 ^ floorlog 2 n"
proof -
  from floorlog_bounds [of n 2] assms
  have b1: "2 ^ (floorlog 2 n - 1) \<le> n" and b2: "n < 2 ^ floorlog 2 n" by auto
  show "1 \<le> floorlog 2 n" using assms by (simp add: floorlog_def)
  have "(of_nat (2 ^ (floorlog 2 n - 1)) :: rat) \<le> of_nat n"
    using b1 by (simp only: of_nat_le_iff)
  then show "(2::rat) ^ (floorlog 2 n - 1) \<le> of_nat n" by simp
  from b2 have "Suc n \<le> 2 ^ floorlog 2 n" by simp
  then have "(of_nat (Suc n) :: rat) \<le> of_nat (2 ^ floorlog 2 n)"
    by (simp only: of_nat_le_iff)
  then show "(of_nat n :: rat) + 1 \<le> 2 ^ floorlog 2 n" by simp
qed

lemma binary_exponent_bounds:
  assumes "0 < a"
  shows "2 powi binary_exponent a \<le> a \<and> a < 2 powi (binary_exponent a + 1)"
proof (cases "1 \<le> a")
  case True
  define n where "n = nat \<lfloor>a\<rfloor>"
  have n: "0 < n" "(of_nat n :: rat) = of_int \<lfloor>a\<rfloor>"
    using True by (simp_all add: n_def)
  note fb = floorlog_2_bounds [OF n(1)]
  have e: "binary_exponent a = int (floorlog 2 n - 1)"
    using True fb(1) by (simp add: binary_exponent_def n_def)
  have e1: "binary_exponent a + 1 = int (floorlog 2 n)"
    using e fb(1) by simp
  have "2 powi binary_exponent a \<le> (of_nat n :: rat)"
    unfolding e using fb(2) by simp
  also have "\<dots> \<le> a" unfolding n(2) by simp
  finally have lo: "2 powi binary_exponent a \<le> a" .
  have "a < of_int \<lfloor>a\<rfloor> + 1" by linarith
  also have "\<dots> \<le> 2 powi (binary_exponent a + 1)"
    unfolding e1 using fb(3) n(2) by simp
  finally show ?thesis using lo by simp
next
  case False
  define b where "b = 1 / a"
  define n where "n = nat (\<lceil>b\<rceil> - 1)"
  have b: "1 < b" using False assms by (simp add: b_def)
  then have c: "2 \<le> \<lceil>b\<rceil>" by linarith
  have n: "0 < n" "(of_nat n :: rat) = of_int \<lceil>b\<rceil> - 1"
    using c by (simp_all add: n_def)
  note fb = floorlog_2_bounds [OF n(1)]
  have nb: "of_nat n < b" "b \<le> of_nat n + 1"
    unfolding n(2) by linarith+
  have e: "binary_exponent a = - int (floorlog 2 n)"
    using False by (simp add: binary_exponent_def n_def b_def)
  have e1: "binary_exponent a + 1 = - int (floorlog 2 n - 1)"
    using e fb(1) by simp
  have "b \<le> 2 ^ floorlog 2 n" using nb(2) fb(3) by linarith
  then have "1 / 2 ^ floorlog 2 n \<le> 1 / b"
    using b by (intro divide_left_mono) auto
  then have lo: "2 powi binary_exponent a \<le> a"
    unfolding e by (simp add: power_int_minus b_def field_simps)
  have "2 ^ (floorlog 2 n - 1) < b" using nb(1) fb(2) by linarith
  then have "1 / b < 1 / 2 ^ (floorlog 2 n - 1)"
    using b by (intro divide_strict_left_mono) auto
  then have "a < 2 powi (binary_exponent a + 1)"
    unfolding e1 by (simp add: power_int_minus b_def field_simps)
  with lo show ?thesis by simp
qed


lemma binary_exponent_eqI:
  assumes "2 powi k \<le> a" and "a < 2 powi (k + 1)"
  shows "binary_exponent a = k"
proof -
  have pos: "0 < a"
    using assms(1) zero_less_power_int [of "2::rat" k] by linarith
  note be = binary_exponent_bounds [OF pos]
  have "\<not> binary_exponent a < k"
  proof
    assume "binary_exponent a < k"
    then have "binary_exponent a + 1 \<le> k" by simp
    then have "(2::rat) powi (binary_exponent a + 1) \<le> 2 powi k"
      by (intro power_int_increasing) auto
    with be assms(1) show False by linarith
  qed
  moreover have "\<not> k < binary_exponent a"
  proof
    assume "k < binary_exponent a"
    then have "k + 1 \<le> binary_exponent a" by simp
    then have "(2::rat) powi (k + 1) \<le> 2 powi binary_exponent a"
      by (intro power_int_increasing) auto
    with be assms(2) show False by linarith
  qed
  ultimately show ?thesis by simp
qed

lemma binary_exponent_mono:
  assumes "0 < a" and "a \<le> b"
  shows "binary_exponent a \<le> binary_exponent b"
proof (rule ccontr)
  assume "\<not> binary_exponent a \<le> binary_exponent b"
  then have "binary_exponent b + 1 \<le> binary_exponent a" by simp
  then have "(2::rat) powi (binary_exponent b + 1) \<le> 2 powi binary_exponent a"
    by (intro power_int_increasing) auto
  moreover have "0 < b" using assms by simp
  ultimately show False
    using binary_exponent_bounds [OF assms(1)] binary_exponent_bounds [OF \<open>0 < b\<close>] assms(2)
    by linarith
qed

lemma round_pos_unit: "round_pos a = of_int (rne (a / 2 powi double_unit a)) * 2 powi double_unit a"
  by (simp add: round_pos_def round_to_unit_def)

lemma scaled_below:
  assumes "0 < a"
  shows "a / 2 powi double_unit a < 2 ^ 53"
proof -
  have "a < 2 powi (binary_exponent a + 1)"
    using binary_exponent_bounds [OF assms] by simp
  also have "\<dots> \<le> 2 powi (double_unit a + 53)"
    by (intro power_int_increasing) (auto simp: double_unit_def)
  also have "\<dots> = 2 powi double_unit a * 2 ^ 53"
    by (simp add: power_int_add)
  finally show ?thesis
    by (simp add: field_simps)
qed

lemma scaled_above:
  assumes "0 < a" and "double_unit a = binary_exponent a - 52"
  shows "2 ^ 52 \<le> a / 2 powi double_unit a"
proof -
  have "2 powi double_unit a * 2 ^ 52 = (2::rat) powi (double_unit a + 52)"
    by (simp add: power_int_add)
  also have "\<dots> = 2 powi binary_exponent a"
    using assms(2) by simp
  also have "\<dots> \<le> a"
    using binary_exponent_bounds [OF assms(1)] by simp
  finally show ?thesis
    by (simp add: field_simps)
qed

lemma rne_scaled_le:
  assumes "0 < a"
  shows "rne (a / 2 powi double_unit a) \<le> 2 ^ 53"
proof -
  have "rne (a / 2 powi double_unit a) \<le> rne (of_int (2 ^ 53))"
    using scaled_below [OF assms] by (intro rne_mono) simp
  then show ?thesis by (simp only: rne_of_int)
qed

lemma rne_scaled_ge:
  assumes "0 < a" and "double_unit a = binary_exponent a - 52"
  shows "2 ^ 52 \<le> rne (a / 2 powi double_unit a)"
proof -
  have "rne (of_int (2 ^ 52)) \<le> rne (a / 2 powi double_unit a)"
    using scaled_above [OF assms] by (intro rne_mono) simp
  then show ?thesis by (simp only: rne_of_int)
qed

lemma rne_nonneg: "0 \<le> m \<Longrightarrow> 0 \<le> rne m"
  using rne_mono [of 0 m] rne_of_int [of 0] by simp

lemma round_pos_nonneg: "0 < a \<Longrightarrow> 0 \<le> round_pos a"
  unfolding round_pos_unit by (intro mult_nonneg_nonneg) (auto intro!: rne_nonneg)

lemma round_pos_mono:
  assumes "0 < a" and "a \<le> b"
  shows "round_pos a \<le> round_pos b"
proof -
  have b: "0 < b" using assms by simp
  have u: "double_unit a \<le> double_unit b"
    using binary_exponent_mono [OF assms] by (simp add: double_unit_def)
  show ?thesis
  proof (cases "double_unit a = double_unit b")
    case True
    have "a / 2 powi double_unit b \<le> b / 2 powi double_unit b"
      using assms(2) by (simp add: divide_right_mono)
    then have "rne (a / 2 powi double_unit b) \<le> rne (b / 2 powi double_unit b)"
      by (rule rne_mono)
    then show ?thesis
      unfolding round_pos_unit True by (simp add: mult_right_mono)
  next
    case False
    with u have lt: "double_unit a + 1 \<le> double_unit b" by simp
    then have nb: "double_unit b = binary_exponent b - 52"
      by (simp add: double_unit_def max_def split: if_splits)
    have "round_pos a \<le> 2 ^ 53 * 2 powi double_unit a"
      unfolding round_pos_unit using rne_scaled_le [OF assms(1)]
      by (intro mult_right_mono) (auto simp flip: of_int_le_iff)
    also have "\<dots> = 2 ^ 52 * 2 powi (double_unit a + 1)"
      by (simp add: power_int_add)
    also have "\<dots> \<le> 2 ^ 52 * 2 powi double_unit b"
      using lt by (intro mult_left_mono power_int_increasing) auto
    also have "\<dots> \<le> round_pos b"
      unfolding round_pos_unit using rne_scaled_ge [OF b nb]
      by (intro mult_right_mono) (auto simp flip: of_int_le_iff)
    finally show ?thesis .
  qed
qed


lemma round_pos_representable:
  assumes "0 < n" and "n \<le> 2 ^ 53" and "- 1074 \<le> e"
  shows "round_pos (of_int n * 2 powi e) = of_int n * 2 powi e"
proof -
  define v :: rat where "v = of_int n * 2 powi e"
  have vpos: "0 < v"
    using assms(1) by (simp add: v_def)
  show ?thesis
  proof (cases "n = 2 ^ 53")
    case True
    have v53: "v = 2 powi (e + 53)"
      by (simp add: v_def True power_int_add)
    have "binary_exponent v = e + 53"
    proof (rule binary_exponent_eqI)
      show "2 powi (e + 53) \<le> v" by (simp add: v53)
      show "v < 2 powi (e + 53 + 1)"
        unfolding v53 by (intro power_int_strict_increasing) auto
    qed
    then have u: "double_unit v = e + 1"
      using assms(3) by (simp add: double_unit_def)
    have "v / 2 powi (e + 1) = of_int (2 ^ 52)"
      by (simp add: v53 power_int_add)
    then have "rne (v / 2 powi (e + 1)) = 2 ^ 52"
      by (simp only: rne_of_int)
    then have "round_pos v = 2 ^ 52 * 2 powi (e + 1)"
      unfolding round_pos_unit u by simp
    also have "\<dots> = v"
      by (simp add: v53 power_int_add)
    finally show ?thesis by (simp add: v_def)
  next
    case False
    with assms(2) have "n + 1 \<le> 2 ^ 53" by simp
    then have "(of_int (n + 1) :: rat) \<le> of_int (2 ^ 53)"
      by (simp only: of_int_le_iff)
    then have "(of_int n :: rat) < 2 ^ 53" by simp
    then have "v < 2 ^ 53 * 2 powi e"
      unfolding v_def by (intro mult_strict_right_mono) auto
    also have "\<dots> = 2 powi (e + 53)"
      by (simp add: power_int_add)
    finally have "2 powi binary_exponent v < (2::rat) powi (e + 53)"
      using binary_exponent_bounds [OF vpos] by linarith
    have "binary_exponent v < e + 53"
    proof (rule ccontr)
      assume "\<not> binary_exponent v < e + 53"
      then have "(2::rat) powi (e + 53) \<le> 2 powi binary_exponent v"
        by (intro power_int_increasing) auto
      with \<open>2 powi binary_exponent v < (2::rat) powi (e + 53)\<close> show False by simp
    qed
    then have u: "double_unit v \<le> e"
      using assms(3) by (simp add: double_unit_def)
    define w where "w = double_unit v"
    define d where "d = nat (e - w)"
    have e: "e = w + int d"
      using u by (simp add: d_def w_def)
    have p: "(2::rat) powi e = 2 powi w * 2 ^ d"
      unfolding e by (simp add: power_int_add)
    have sc: "v / 2 powi w = of_int (n * 2 ^ d)"
      by (simp add: v_def p)
    have "round_pos v = of_int (rne (v / 2 powi w)) * 2 powi w"
      by (simp add: round_pos_unit w_def)
    also have "\<dots> = of_int (n * 2 ^ d) * 2 powi w"
      unfolding sc by (simp only: rne_of_int)
    also have "\<dots> = v"
      by (simp add: v_def p)
    finally show ?thesis by (simp add: v_def)
  qed
qed

lemma double_unit_ge: "- 1074 \<le> double_unit a"
  by (simp add: double_unit_def)

lemma round_pos_idem:
  assumes "0 < a"
  shows "round_pos a = 0 \<or> round_pos (round_pos a) = round_pos a"
proof -
  define n where "n = rne (a / 2 powi double_unit a)"
  have nn: "0 \<le> n"
    unfolding n_def using assms by (intro rne_nonneg) simp
  have "n = 0 \<or> 0 < n" using nn by linarith
  then show ?thesis
  proof
    assume "n = 0"
    then show ?thesis by (simp add: round_pos_unit n_def)
  next
    assume "0 < n"
    then have "round_pos (of_int n * 2 powi double_unit a) = of_int n * 2 powi double_unit a"
      using rne_scaled_le [OF assms] double_unit_ge [of a]
      by (intro round_pos_representable) (simp_all add: n_def)
    then show ?thesis by (simp add: round_pos_unit n_def)
  qed
qed

lemma round_double_minus: "round_double (- x) = - round_double x"
  by (simp add: round_double_def)

lemma round_double_nonneg: "0 \<le> x \<Longrightarrow> 0 \<le> round_double x"
  by (simp add: round_double_def round_pos_nonneg)

lemma round_double_idem_nonneg:
  assumes "0 \<le> x"
  shows "round_double (round_double x) = round_double x"
proof (cases "x = 0")
  case True
  then show ?thesis by (simp add: round_double_def)
next
  case False
  with assms have x: "0 < x" by simp
  have r: "0 \<le> round_pos x" by (rule round_pos_nonneg [OF x])
  from round_pos_idem [OF x] show ?thesis
  proof
    assume "round_pos x = 0"
    then show ?thesis using x by (simp add: round_double_def)
  next
    assume "round_pos (round_pos x) = round_pos x"
    then show ?thesis using x r by (simp add: round_double_def)
  qed
qed

lemma round_double_idem: "round_double (round_double x) = round_double x"
proof (cases "0 \<le> x")
  case True
  then show ?thesis by (rule round_double_idem_nonneg)
next
  case False
  then have "0 \<le> - x" by simp
  then have "round_double (round_double (- x)) = round_double (- x)"
    by (rule round_double_idem_nonneg)
  then show ?thesis by (simp add: round_double_minus)
qed

lemma round_double_mono_nonneg:
  assumes "0 \<le> x" and "x \<le> y"
  shows "round_double x \<le> round_double y"
proof (cases "x = 0")
  case True
  then show ?thesis using assms round_double_nonneg [of y] by (simp add: round_double_def)
next
  case False
  with assms have "0 < x" "0 < y" by simp_all
  then show ?thesis
    using round_pos_mono [OF \<open>0 < x\<close> assms(2)] by (simp add: round_double_def)
qed

lemma decide_Some:
  assumes "decide m s lo hi rlo rhi = Some v"
  shows "(v = lo \<and> rlo = m) \<or> (v = hi \<and> rhi = m)"
  using assms by (auto simp: decide_def split: if_splits)

lemma candidate_Some:
  assumes "candidate m u = Some v"
  shows "round_double v = m"
  using decide_Some [OF assms [unfolded candidate_def between_def]] by auto

lemma shortest_roundtrip:
  assumes "round_double m = m"
  shows "round_double (shortest m n k fuel) = m"
proof (induction fuel arbitrary: k)
  case 0
  show ?case using assms by simp
next
  case (Suc fuel)
  show ?case
  proof (cases "candidate m (10 powi (n - int k))")
    case None
    then show ?thesis using Suc.IH by simp
  next
    case (Some v)
    then show ?thesis using candidate_Some [OF Some] by simp
  qed
qed

lemma number_to_string_roundtrip:
  assumes "round_double m = m"
  shows "round_double (number_to_string m) = m"
proof -
  consider "m = 0" | "0 < m" | "m < 0" by linarith
  then show ?thesis
  proof cases
    case 1
    then show ?thesis by (simp add: number_to_string_def round_double_def)
  next
    case 2
    then have "number_to_string m = shortest m (decimal_exponent m + 1) 1 17"
      by (simp add: number_to_string_def)
    then show ?thesis using shortest_roundtrip [OF assms] by simp
  next
    case 3
    have neg: "round_double (- m) = - m"
      using assms by (simp add: round_double_minus)
    from 3 have "number_to_string m = - shortest (- m) (decimal_exponent (- m) + 1) 1 17"
      by (simp add: number_to_string_def)
    then have "round_double (number_to_string m) =
        - round_double (shortest (- m) (decimal_exponent (- m) + 1) 1 17)"
      by (simp only: round_double_minus)
    then show ?thesis using shortest_roundtrip [OF neg] by simp
  qed
qed

lemma parseFloat_number_to_string:
  "parseFloat (number_to_string (round_double x)) = round_double x"
  unfolding parseFloat_def by (rule number_to_string_roundtrip) (rule round_double_idem)

lemma round_double_one: "round_double 1 = 1"
  using round_pos_representable [of 1 0] by (simp add: round_double_def)

lemma factor_9999_bounds: "0 \<le> round_double (9999 / 10000) \<and> round_double (9999 / 10000) \<le> 1"
  using round_double_nonneg [of "9999 / 10000"] round_double_mono_nonneg [of "9999 / 10000" 1]
  by (simp add: round_double_one)

lemma reduced_shares_le:
  assumes "0 \<le> parseFloat x"
  shows "parseFloat (number_to_string (round_double (parseFloat x * round_double (9999 / 10000))))
           \<le> parseFloat x"
proof -
  define c where "c = round_double (9999 / 10000)"
  have c: "0 \<le> c" "c \<le> 1"
    using factor_9999_bounds by (simp_all add: c_def)
  have "0 \<le> parseFloat x * c"
    using assms c(1) by simp
  moreover have "parseFloat x * c \<le> parseFloat x"
    using assms c(2) by (simp add: mult_left_le)
  ultimately have "round_double (parseFloat x * c) \<le> round_double (parseFloat x)"
    by (rule round_double_mono_nonneg)
  also have "\<dots> = parseFloat x"
    by (simp add: parseFloat_def round_double_idem)
  finally show ?thesis
    by (simp add: parseFloat_number_to_string c_def)
qed

section \<open>What the read-only helpers return\<close>

lemma getDTAddress_eq:
  "getDTAddress P pool s =
     (currentDT P pool (oceanAddress s),
      s\<lparr>dtAddress := currentDT P pool (oceanAddress s),
        trace := trace s @ [LedgerRead ''getCurrentTokens'']\<rparr>)"
  by (simp add: getDTAddress_def currentDT_def super_getCurrentTokens_def emit_def Let_def)

lemma getMaxBuyQuantity_eq:
  "getMaxBuyQuantity P pool tok s =
     (number_to_string (round_double (parseFloat (pool_getReserve P pool tok) / 3)),
      s\<lparr>trace := trace s @ [LedgerRead ''getReserve'']\<rparr>)"
  by (simp add: getMaxBuyQuantity_def super_getReserve_def emit_def)

lemma getMaxAddLiquidity_eq:
  "getMaxAddLiquidity P pool tok s =
     (reserve_ceiling POOL_MAX_AMOUNT_IN_LIMIT (pool_getReserve P pool tok),
      s\<lparr>trace := trace s @ [LedgerRead ''getReserve'']\<rparr>)"
  by (simp add: getMaxAddLiquidity_def reserve_ceiling_def super_getReserve_def emit_def Let_def)

lemma getMaxRemoveLiquidity_eq:
  "getMaxRemoveLiquidity P pool tok s =
     (reserve_ceiling POOL_MAX_AMOUNT_OUT_LIMIT (pool_getReserve P pool tok),
      s\<lparr>trace := trace s @ [LedgerRead ''getReserve'']\<rparr>)"
  by (simp add: getMaxRemoveLiquidity_def reserve_ceiling_def super_getReserve_def emit_def Let_def)

lemma calcInGivenOut_eq:
  "calcInGivenOut P pool tin tout a s =
     (pool_calcInGivenOut P pool (pool_getReserve P pool tin)
        (pool_getDenormalizedWeight P pool tin) (pool_getReserve P pool tout)
        (pool_getDenormalizedWeight P pool tout) a (pool_getSwapFee P pool),
      s\<lparr>trace := trace s @ [LedgerRead ''getReserve'', LedgerRead ''getDenormalizedWeight'',
          LedgerRead ''getReserve'', LedgerRead ''getDenormalizedWeight'',
          LedgerRead ''getSwapFee'', LedgerRead ''calcInGivenOut'']\<rparr>)"
  by (simp add: calcInGivenOut_def super_getReserve_def super_getDenormalizedWeight_def
      super_getSwapFee_def super_calcInGivenOut_def emit_def)

lemma calcOutGivenIn_eq:
  "calcOutGivenIn P pool tin tout a s =
     (pool_calcOutGivenIn P pool (pool_getReserve P pool tin)
        (pool_getDenormalizedWeight P pool tin) (pool_getReserve P pool tout)
        (pool_getDenormalizedWeight P pool tout) a (pool_getSwapFee P pool),
      s\<lparr>trace := trace s @ [LedgerRead ''getReserve'', LedgerRead ''getDenormalizedWeight'',
          LedgerRead ''getReserve'', LedgerRead ''getDenormalizedWeight'',
          LedgerRead ''getSwapFee'', LedgerRead ''calcOutGivenIn'']\<rparr>)"
  by (simp add: calcOutGivenIn_def super_getReserve_def super_getDenormalizedWeight_def
      super_getSwapFee_def super_calcOutGivenIn_def emit_def)

lemma calcPoolInGivenSingleOut_eq:
  "calcPoolInGivenSingleOut P pool tout a s =
     (pool_calcPoolInGivenSingleOut P pool (pool_getReserve P pool tout)
        (pool_getDenormalizedWeight P pool tout) (pool_getPoolSharesTotalSupply P pool)
        (pool_getTotalDenormalizedWeight P pool) a (pool_getSwapFee P pool),
      s\<lparr>trace := trace s @ [LedgerRead ''getReserve'', LedgerRead ''getDenormalizedWeight'',
          LedgerRead ''getPoolSharesTotalSupply'', LedgerRead ''getTotalDenormalizedWeight'',
          LedgerRead ''getSwapFee'', LedgerRead ''calcPoolInGivenSingleOut'']\<rparr>)"
  by (simp add: calcPoolInGivenSingleOut_def super_getReserve_def super_getDenormalizedWeight_def
      super_getSwapFee_def super_getPoolSharesTotalSupply_def super_getTotalDenormalizedWeight_def
      super_calcPoolInGivenSingleOut_def emit_def)

lemmas helper_eqs = getDTAddress_eq getMaxBuyQuantity_eq getMaxAddLiquidity_eq
  getMaxRemoveLiquidity_eq calcInGivenOut_eq calcOutGivenIn_eq calcPoolInGivenSingleOut_eq
  getOceanMaxBuyQuantity_def getDTMaxBuyQuantity_def getPoolSharesRequiredToRemoveDT_def
  getPoolSharesRequiredToRemoveOcean_def getDTMaxAddLiquidity_def getOceanMaxAddLiquidity_def
  getDTMaxRemoveLiquidity_def getOceanMaxRemoveLiquidity_def getOceanNeeded_def
  getOceanReceived_def super_sharesBalance_def super_approve_def super_swapExactAmountOut_def
  super_swapExactAmountIn_def super_joinswapExternAmountIn_def super_exitswapExternAmountOut_def
  super_exitPool_def super_createPool_def super_setup_def logger_error_def observer_next_def
  emit_def issued_def

lemmas P0_defs = P0_def s0_def s_unset_def receipt0_def currentDT_def toWei_def fromWei_def
  reserve_ceiling_def integerValue_ROUND_DOWN_def POOL_MAX_AMOUNT_IN_LIMIT_def POOL_MAX_AMOUNT_OUT_LIMIT_def

section \<open>Properties of the reserve-fraction ceilings\<close>

lemma trunc_nonneg: "0 \<le> x \<Longrightarrow> integerValue_ROUND_DOWN x = \<lfloor>x\<rfloor>"
  by (simp add: integerValue_ROUND_DOWN_def)

lemma toWei_nonneg: "0 \<le> a \<Longrightarrow> 0 \<le> toWei a"
  by (simp add: toWei_def)

lemma floor_pred_less: "(of_int (\<lfloor>x :: rat\<rfloor> - 1) :: rat) < x"
proof -
  have "of_int \<lfloor>x\<rfloor> \<le> x"
    by (rule of_int_floor_le)
  then have "of_int \<lfloor>x\<rfloor> - 1 < x"
    by linarith
  then show ?thesis
    by (simp only: of_int_diff of_int_1)
qed

lemma quarter_floor_less:
  assumes "0 < (r::rat)"
  shows "fromWei (\<lfloor>of_int (toWei r) * (25 / 100 :: rat)\<rfloor> - 1) < (25 / 100) * r"
proof -
  have a: "of_int (toWei r) \<le> r * 10 ^ 18"
    by (simp add: toWei_def)
  have "(of_int (\<lfloor>of_int (toWei r) * (25 / 100 :: rat)\<rfloor> - 1) :: rat) < of_int (toWei r) * (25 / 100)"
    by (rule floor_pred_less)
  also have "\<dots> \<le> (r * 10 ^ 18) * (25 / 100)"
    using a by simp
  finally have "(of_int (\<lfloor>of_int (toWei r) * (25 / 100 :: rat)\<rfloor> - 1) :: rat) / 10 ^ 18 < ((r * 10 ^ 18) * (25 / 100)) / 10 ^ 18"
    by (simp add: divide_strict_right_mono)
  then show ?thesis by (simp add: fromWei_def)
qed

text \<open>
  C4. For a pool whose reserve of the asset is positive, \<^verbatim>\<open>getMaxAddLiquidity\<close> and
  \<^verbatim>\<open>getMaxRemoveLiquidity\<close> return \<open>floor (reserve in raw units * 0.25) - 1\<close> raw
  units, and this is strictly less than 0.25 times the reserve.
\<close>

theorem maxLiquidity_ceiling:
  assumes "0 < pool_getReserve P pool tok"
  shows "fst (getMaxAddLiquidity P pool tok s) =
           fromWei (\<lfloor>of_int (toWei (pool_getReserve P pool tok)) * (25 / 100 :: rat)\<rfloor> - 1)
       \<and> fst (getMaxAddLiquidity P pool tok s) < (25 / 100) * pool_getReserve P pool tok
       \<and> fst (getMaxRemoveLiquidity P pool tok s) =
           fromWei (\<lfloor>of_int (toWei (pool_getReserve P pool tok)) * (25 / 100 :: rat)\<rfloor> - 1)
       \<and> fst (getMaxRemoveLiquidity P pool tok s) < (25 / 100) * pool_getReserve P pool tok"
proof -
  have "0 \<le> (of_int (toWei (pool_getReserve P pool tok)) :: rat) * (25 / 100)"
    using assms toWei_nonneg [of "pool_getReserve P pool tok"] by simp
  then have t: "integerValue_ROUND_DOWN (of_int (toWei (pool_getReserve P pool tok)) * (25 / 100))
      = \<lfloor>(of_int (toWei (pool_getReserve P pool tok)) :: rat) * (25 / 100)\<rfloor>"
    by (rule trunc_nonneg)
  show ?thesis
    using assms t quarter_floor_less [OF assms]
    by (simp add: getMaxAddLiquidity_eq getMaxRemoveLiquidity_eq reserve_ceiling_def
        POOL_MAX_AMOUNT_IN_LIMIT_def POOL_MAX_AMOUNT_OUT_LIMIT_def)
qed

theorem maxLiquidity_ceiling_witness:
  "fst (getMaxAddLiquidity P0 ''pool'' (Some ''dt'') s0) = 2999999999999999999 / 10 ^ 18
   \<and> fst (getMaxRemoveLiquidity P0 ''pool'' (Some ''dt'') s0) = 2999999999999999999 / 10 ^ 18
   \<and> fst (getMaxRemoveLiquidity P0 ''pool'' (Some ''dt'') s0) < 3"
proof -
  have h: "0 < pool_getReserve P0 ''pool'' (Some ''dt'')"
    by (simp add: P0_def)
  have v: "fromWei (\<lfloor>of_int (toWei (pool_getReserve P0 ''pool'' (Some ''dt''))) * (25 / 100 :: rat)\<rfloor> - 1)
      = 2999999999999999999 / 10 ^ 18"
    by (simp add: P0_def toWei_def fromWei_def)
  have r: "(25 / 100) * pool_getReserve P0 ''pool'' (Some ''dt'') = 3"
    by (simp add: P0_def)
  show ?thesis
    using maxLiquidity_ceiling [OF h, of s0] unfolding v r by simp
qed

text \<open>
  C9. For a pool whose reserve of the asset is zero or negative, \<^verbatim>\<open>getMaxAddLiquidity\<close>
  and \<^verbatim>\<open>getMaxRemoveLiquidity\<close> return \<^verbatim>\<open>'0'\<close>; the formula of the other branch is
  not applied (it would give a negative amount there).
\<close>

theorem maxLiquidity_zero_reserve:
  assumes "pool_getReserve P pool tok \<le> 0"
  shows "fst (getMaxAddLiquidity P pool tok s) = 0
       \<and> fst (getMaxRemoveLiquidity P pool tok s) = 0
       \<and> fromWei (integerValue_ROUND_DOWN
            (of_int (toWei (pool_getReserve P pool tok)) * POOL_MAX_AMOUNT_IN_LIMIT) - 1) < 0
       \<and> fromWei (integerValue_ROUND_DOWN
            (of_int (toWei (pool_getReserve P pool tok)) * POOL_MAX_AMOUNT_OUT_LIMIT) - 1) < 0"
proof -
  have w: "toWei (pool_getReserve P pool tok) \<le> 0"
    using assms by (simp add: toWei_def floor_le_zero mult_le_0_iff)
  then have "(of_int (toWei (pool_getReserve P pool tok)) :: rat) * (25 / 100) \<le> 0"
    by (simp add: mult_le_0_iff)
  then have "integerValue_ROUND_DOWN (of_int (toWei (pool_getReserve P pool tok)) * (25 / 100)) \<le> 0"
    by (auto simp: integerValue_ROUND_DOWN_def ceiling_le_zero)
  then have "fromWei (integerValue_ROUND_DOWN
      (of_int (toWei (pool_getReserve P pool tok)) * (25 / 100)) - 1) < 0"
    by (simp add: fromWei_def divide_less_0_iff)
  then show ?thesis
    using assms
    by (simp add: getMaxAddLiquidity_eq getMaxRemoveLiquidity_eq reserve_ceiling_def
        POOL_MAX_AMOUNT_IN_LIMIT_def POOL_MAX_AMOUNT_OUT_LIMIT_def)
qed

theorem maxLiquidity_zero_reserve_witness:
  "pool_getReserve P0 ''empty'' (Some ''dt'') = 0
   \<and> fst (getMaxAddLiquidity P0 ''empty'' (Some ''dt'') s0) = 0
   \<and> fst (getMaxRemoveLiquidity P0 ''empty'' (Some ''dt'') s0) = 0"
proof -
  have h: "pool_getReserve P0 ''empty'' (Some ''dt'') \<le> 0"
    by (simp add: P0_def)
  show ?thesis
    using maxLiquidity_zero_reserve [OF h, of s0] by (simp add: P0_def)
qed

section \<open>Rounding at the amounts of the examples\<close>

lemma round_double_of_int:
  assumes "\<bar>n\<bar> \<le> 2 ^ 53"
  shows "round_double (of_int n) = of_int n"
proof -
  have pos: "round_pos (of_int k) = of_int k" if "0 < k" "k \<le> 2 ^ 53" for k
    using round_pos_representable [OF that, of 0] by simp
  consider "n = 0" | "0 < n" | "n < 0" by linarith
  then show ?thesis
  proof cases
    case 1
    then show ?thesis by (simp add: round_double_def)
  next
    case 2
    then show ?thesis using pos [of n] assms by (simp add: round_double_def)
  next
    case 3
    then show ?thesis using pos [of "- n"] assms by (simp add: round_double_def)
  qed
qed

lemma round_double_numeral:
  "numeral k \<le> (2::int) ^ 53 \<Longrightarrow> round_double (numeral k) = numeral k"
  using round_double_of_int [of "numeral k"] by simp

lemma round_double_zero: "round_double 0 = 0"
  by (simp add: round_double_def)

lemmas number_simps = parseFloat_def round_double_numeral round_double_zero round_double_one

lemma double_of_ceiling_12: "round_double (2999999999999999999 / 1000000000000000000) = 3"
  by code_simp

lemma double_of_quote_20: "round_double (20000000000000000001 / 1000000000000000000) = 20"
  by code_simp

lemma double_of_shares_10: "round_double (10000000000000000001 / 1000000000000000000) = 10"
  by code_simp

lemma double_of_9999: "round_double (9999 / 10000) = 4503149267407759 / 4503599627370496"
  by code_simp

lemma double_of_10_times_9999: "round_double (22515746337038795 / 2251799813685248) = 5628936584259699 / 562949953421312"
  by code_simp

lemma string_of_10_times_9999: "number_to_string (5628936584259699 / 562949953421312) = 9999 / 1000"
  by code_simp

lemma double_of_23_times_9999: "round_double (103572433150378457 / 4503599627370496) = 3236638535949327 / 140737488355328"
  by code_simp

lemma string_of_23_times_9999: "number_to_string (3236638535949327 / 140737488355328) = 11498850000000001 / 500000000000000"
  by code_simp

lemma string_of_4: "number_to_string 4 = 4"
  by code_simp

lemma string_of_40: "number_to_string 40 = 40"
  by code_simp

lemma double_of_10_thirds: "round_double (10 / 3) = 7505999378950827 / 2251799813685248"
  by code_simp

lemma string_of_10_thirds: "number_to_string (7505999378950827 / 2251799813685248) = 6666666666666667 / 2000000000000000"
  by code_simp

lemma double_of_fifth: "round_double (1 / 5) = 3602879701896397 / 18014398509481984"
  by code_simp

lemma double_of_tenth: "round_double (1 / 10) = 3602879701896397 / 36028797018963968"
  by code_simp

lemma double_of_hundredth: "round_double (1 / 100) = 5764607523034235 / 576460752303423488"
  by code_simp

lemma double_of_8_6: "round_double (43 / 5) = 4841369599423283 / 562949953421312"
  by code_simp

lemma double_of_10_minus_8_6: "round_double (788129934789837 / 562949953421312) = 788129934789837 / 562949953421312"
  by code_simp

lemma string_of_10_minus_8_6: "number_to_string (788129934789837 / 562949953421312) = 3500000000000001 / 2500000000000000"
  by code_simp

lemma double_of_1_0001: "round_double (10001 / 10000) = 4504049987333233 / 4503599627370496"
  by code_simp

lemma double_of_10_001: "round_double (10001 / 1000) = 5630062484166541 / 562949953421312"
  by code_simp

lemma double_of_3_5: "round_double (7 / 2) = 7 / 2"
  by code_simp

lemma double_of_ceiling_120: "round_double (29999999999999999999 / 1000000000000000000) = 30"
  by code_simp

lemma double_of_max_20: "round_double (200000000000000000001 / 10000000000000000000) = 20"
  by code_simp

lemmas double_facts = double_of_ceiling_12
  double_of_quote_20
  double_of_shares_10
  double_of_9999
  double_of_10_times_9999
  string_of_10_times_9999
  double_of_23_times_9999
  string_of_23_times_9999
  string_of_4
  string_of_40
  double_of_10_thirds
  string_of_10_thirds
  double_of_fifth
  double_of_tenth
  double_of_hundredth
  double_of_8_6
  double_of_10_minus_8_6
  string_of_10_minus_8_6
  double_of_1_0001
  double_of_10_001
  double_of_3_5
  double_of_ceiling_120
  double_of_max_20

section \<open>Rejections before any transaction\<close>

text \<open>
  C8 (as amended). When the requested amount, read by \<^verbatim>\<open>parseFloat\<close>, exceeds the
  withdrawal ceiling of \<^verbatim>\<open>getDTMaxRemoveLiquidity\<close>, read by \<^verbatim>\<open>parseFloat\<close>,
  \<^verbatim>\<open>removeDTLiquidity\<close> returns \<^verbatim>\<open>null\<close>; what it has done by then is to read
  the ledger for the ceiling (the current tokens twice, the reserve once) and to log
  \<^verbatim>\<open>ERROR: Too much reserve to remove\<close>: no approval, no exit, no other transaction.
\<close>

theorem removeDTLiquidity_over_ceiling:
  assumes "parseFloat (fst (getDTMaxRemoveLiquidity P pool s)) < parseFloat amt"
  shows "fst (removeDTLiquidity P account pool amt maxShares s) = None
       \<and> issued s (snd (removeDTLiquidity P account pool amt maxShares s)) =
           [LedgerRead ''getCurrentTokens'', LedgerRead ''getCurrentTokens'',
            LedgerRead ''getReserve'', LoggerError ''ERROR: Too much reserve to remove'']"
  using assms by (simp add: removeDTLiquidity_def helper_eqs)

theorem removeDTLiquidity_over_ceiling_witness:
  "parseFloat (fst (getDTMaxRemoveLiquidity P0 ''pool'' s0)) < parseFloat 5
   \<and> fst (removeDTLiquidity P0 ''alice'' ''pool'' 5 10 s0) = None
   \<and> filter is_transaction (issued s0 (snd (removeDTLiquidity P0 ''alice'' ''pool'' 5 10 s0))) = []"
proof -
  have h: "parseFloat (fst (getDTMaxRemoveLiquidity P0 ''pool'' s0)) < parseFloat 5"
    by (simp add: helper_eqs P0_defs number_simps double_facts)
  show ?thesis
    using h removeDTLiquidity_over_ceiling [OF h, of "''alice''" 10] by simp
qed

text \<open>
  C8 as stated rejects every amount above the ceiling. On the ledger \<open>P1\<close> the reserve is
  12 datatokens and the ceiling \<^verbatim>\<open>'2.999999999999999999'\<close>, which \<^verbatim>\<open>parseFloat\<close>
  reads as 3: a withdrawal of 3 datatokens exceeds the ceiling, passes the guard and
  reaches the exit.
\<close>

theorem removeDTLiquidity_at_quarter_exits:
  "fst (getDTMaxRemoveLiquidity P1 ''pool'' s0) = 2999999999999999999 / 10 ^ 18
   \<and> fst (getDTMaxRemoveLiquidity P1 ''pool'' s0) < 3
   \<and> fst (removeDTLiquidity P1 ''alice'' ''pool'' 3 30 s0) = Some receipt0
   \<and> last (trace (snd (removeDTLiquidity P1 ''alice'' ''pool'' 3 30 s0))) =
       ExitswapExternAmountOut ''alice'' ''pool'' (Some ''dt'') 3 30"
  by (simp add: removeDTLiquidity_def helper_eqs P0_defs P1_def number_simps double_facts)

text \<open>
  C6 (as amended). When the OCEAN amount needed for the datatokens wanted, read by
  \<^verbatim>\<open>parseFloat\<close>, exceeds \<^verbatim>\<open>maxOceanAmount\<close>, read by \<^verbatim>\<open>parseFloat\<close>,
  \<^verbatim>\<open>buyDT\<close> returns \<^verbatim>\<open>null\<close> and issues no transaction: neither \<^verbatim>\<open>approve\<close>
  nor the swap. When the two earlier guards let the request through, the rejection is the
  one of the limit check, logged as \<^verbatim>\<open>ERROR: Not enough Ocean Tokens\<close>.
\<close>

theorem buyDT_limit_exceeded:
  assumes "parseFloat maxOcean < parseFloat (fst (getOceanNeeded P pool dtWanted s))"
  shows "fst (buyDT P account pool dtWanted maxOcean maxPrice s) = Inr None
       \<and> filter is_transaction (issued s (snd (buyDT P account pool dtWanted maxOcean maxPrice s))) = []
       \<and> (oceanAddress s \<noteq> None
            \<and> parseFloat dtWanted \<le> parseFloat (fst (getDTMaxBuyQuantity P pool s)) \<longrightarrow>
            last (trace (snd (buyDT P account pool dtWanted maxOcean maxPrice s))) =
              LoggerError ''ERROR: Not enough Ocean Tokens'')"
  using assms by (simp add: buyDT_def helper_eqs)

theorem buyDT_limit_exceeded_witness:
  "parseFloat 15 < parseFloat (fst (getOceanNeeded P0 ''pool'' 2 s0))
   \<and> fst (buyDT P0 ''alice'' ''pool'' 2 15 None s0) = Inr None
   \<and> filter is_transaction (issued s0 (snd (buyDT P0 ''alice'' ''pool'' 2 15 None s0))) = []
   \<and> last (trace (snd (buyDT P0 ''alice'' ''pool'' 2 15 None s0))) =
       LoggerError ''ERROR: Not enough Ocean Tokens''"
proof -
  have h: "parseFloat 15 < parseFloat (fst (getOceanNeeded P0 ''pool'' 2 s0))"
    by (simp add: helper_eqs P0_defs number_simps double_facts)
  have g: "oceanAddress s0 \<noteq> None
      \<and> parseFloat 2 \<le> parseFloat (fst (getDTMaxBuyQuantity P0 ''pool'' s0))"
    by (simp add: helper_eqs P0_defs number_simps double_facts)
  show ?thesis
    using h g buyDT_limit_exceeded [OF h, of "''alice''" None] by simp
qed

text \<open>
  C6 as stated rejects every request whose required input exceeds the maximum. On the
  ledger \<open>P3\<close> two datatokens need \<^verbatim>\<open>'20.000000000000000001'\<close> OCEAN, more than the
  maximum \<^verbatim>\<open>'20'\<close>; \<^verbatim>\<open>parseFloat\<close> reads both as 20, and \<^verbatim>\<open>buyDT\<close> issues
  \<^verbatim>\<open>approve\<close> and the swap.
\<close>

theorem buyDT_limit_within_rounding:
  "fst (getOceanNeeded P3 ''pool'' 2 s0) = 20000000000000000001 / 10 ^ 18
   \<and> 20 < fst (getOceanNeeded P3 ''pool'' 2 s0)
   \<and> fst (buyDT P3 ''alice'' ''pool'' 2 20 None s0) = Inr (Some receipt0)
   \<and> filter is_transaction (trace (snd (buyDT P3 ''alice'' ''pool'' 2 20 None s0))) =
       [Approve ''alice'' (Some ''ocean'') ''pool'' 20000000000000000000,
        SwapExactAmountOut ''alice'' ''pool'' (Some ''ocean'') 20 (Some ''dt'') 2 None]"
  by (simp add: buyDT_def helper_eqs P0_defs P3_def web3_toWei_def number_simps double_facts)

section \<open>The swap ceiling\<close>

text \<open>
  C3 (as amended). The maximum buy quantity is \<^verbatim>\<open>String(parseFloat(reserve) / 3)\<close>:
  one third of the reserve in double arithmetic, which \<^verbatim>\<open>parseFloat\<close> reads back as
  that quotient; it is not the one-quarter ceiling. \<^verbatim>\<open>buyDT\<close> rejects, before any
  transaction, a request for more datatokens (read by \<^verbatim>\<open>parseFloat\<close>) than this third
  of the datatoken reserve, and \<^verbatim>\<open>sellDT\<close> a request whose wanted OCEAN amount, the
  minimum to receive, exceeds this third of the OCEAN reserve. The OCEAN a sale really
  draws is not compared with it.
\<close>

theorem swap_max_buy_quantity:
  "fst (getMaxBuyQuantity P pool tok s) =
     number_to_string (round_double (parseFloat (pool_getReserve P pool tok) / 3))
   \<and> parseFloat (fst (getMaxBuyQuantity P pool tok s)) =
       round_double (parseFloat (pool_getReserve P pool tok) / 3)
   \<and> (round_double (parseFloat (pool_getReserve P pool (currentDT P pool (oceanAddress s))) / 3)
        < parseFloat dtWanted \<longrightarrow>
        fst (buyDT P account pool dtWanted maxOcean maxPrice s) = Inr None
        \<and> filter is_transaction
            (issued s (snd (buyDT P account pool dtWanted maxOcean maxPrice s))) = [])
   \<and> (round_double (parseFloat (pool_getReserve P pool (oceanAddress s)) / 3)
        < parseFloat oceanWanted \<longrightarrow>
        fst (sellDT P account pool dtAmount oceanWanted maxPrice s) = Inr None
        \<and> filter is_transaction
            (issued s (snd (sellDT P account pool dtAmount oceanWanted maxPrice s))) = [])"
  by (simp add: buyDT_def sellDT_def helper_eqs parseFloat_number_to_string)

theorem swap_max_buy_quantity_witness:
  "fst (getMaxBuyQuantity P2 ''pool'' (Some ''dt'') s0) = 33333333333333335 / 10 ^ 16
   \<and> fst (buyDT P0 ''alice'' ''pool'' 5 100 None s0) = Inr None
   \<and> filter is_transaction (issued s0 (snd (buyDT P0 ''alice'' ''pool'' 5 100 None s0))) = []
   \<and> fst (sellDT P0 ''alice'' ''pool'' 5 50 None s0) = Inr None
   \<and> filter is_transaction (issued s0 (snd (sellDT P0 ''alice'' ''pool'' 5 50 None s0))) = []"
proof -
  have a: "round_double (parseFloat (pool_getReserve P0 ''pool''
             (currentDT P0 ''pool'' (oceanAddress s0))) / 3) < parseFloat 5"
    by (simp add: P0_defs number_simps)
  have b: "round_double (parseFloat (pool_getReserve P0 ''pool'' (oceanAddress s0)) / 3)
             < parseFloat 50"
    by (simp add: P0_defs number_simps)
  have c: "number_to_string (round_double (parseFloat (pool_getReserve P2 ''pool'' (Some ''dt'')) / 3))
             = 33333333333333335 / 10 ^ 16"
    by (simp add: P0_defs P2_def number_simps double_facts)
  have 1: "fst (getMaxBuyQuantity P2 ''pool'' (Some ''dt'') s0) = 33333333333333335 / 10 ^ 16"
    using swap_max_buy_quantity [of P2 "''pool''" "Some ''dt''" s0] c by simp
  show ?thesis
    using a b 1
      swap_max_buy_quantity [of P0 "''pool''" "Some ''dt''" s0 5 "''alice''" 100 None 50 5]
    by simp
qed

text \<open>
  C3 as stated puts the ceiling at one quarter of the reserve, for the amount drawn out.
  On the example ledger (12 datatokens, 120 OCEAN) the maximum buy quantity is 4, a
  purchase of 3.5 datatokens and a sale for at least 35 OCEAN both exceed a quarter of the
  reserve and both go through to the swap; and a sale of 5 datatokens for at least 0 OCEAN
  is quoted 50 OCEAN, more than a third of the reserve, and goes through as well.
\<close>

theorem swap_quarter_counterexample:
  "pool_getReserve P0 ''pool'' (Some ''dt'') * (25 / 100) < 7 / 2
   \<and> fst (buyDT P0 ''alice'' ''pool'' (7 / 2) 40 None s0) = Inr (Some receipt0)
   \<and> last (trace (snd (buyDT P0 ''alice'' ''pool'' (7 / 2) 40 None s0))) =
       SwapExactAmountOut ''alice'' ''pool'' (Some ''ocean'') 40 (Some ''dt'') (7 / 2) None
   \<and> pool_getReserve P0 ''pool'' (Some ''ocean'') * (25 / 100) < 35
   \<and> fst (sellDT P0 ''alice'' ''pool'' 4 35 None s0) = Inr (Some receipt0)
   \<and> last (trace (snd (sellDT P0 ''alice'' ''pool'' 4 35 None s0))) =
       SwapExactAmountIn ''alice'' ''pool'' (Some ''dt'') 4 (Some ''ocean'') 35 None
   \<and> fst (getMaxBuyQuantity P0 ''pool'' (Some ''dt'') s0) = 4
   \<and> fst (getOceanReceived P0 ''pool'' 5 s0) = 50
   \<and> fst (sellDT P0 ''alice'' ''pool'' 5 0 None s0) = Inr (Some receipt0)
   \<and> last (trace (snd (sellDT P0 ''alice'' ''pool'' 5 0 None s0))) =
       SwapExactAmountIn ''alice'' ''pool'' (Some ''dt'') 5 (Some ''ocean'') 0 None"
  by (simp add: buyDT_def sellDT_def helper_eqs P0_defs web3_toWei_def number_simps double_facts)

section \<open>Full exit\<close>

text \<open>
  C2 (as amended). \<^verbatim>\<open>removePoolLiquidity\<close> compares \<^verbatim>\<open>poolShares\<close> and the
  caller's share balance as \<^verbatim>\<open>parseFloat\<close> reads them. When \<^verbatim>\<open>poolShares\<close> is the
  larger double, the call returns \<^verbatim>\<open>null\<close> and no exit (no transaction at all) is
  issued; when the two are the same double, the exit is issued for
  \<^verbatim>\<open>String(parseFloat(poolShares) * 0.9999)\<close>, the product rounded to a double; and
  with a balance that is not negative, no exit the call issues spends more shares
  than the balance, both read by \<^verbatim>\<open>parseFloat\<close>.
\<close>

theorem removePoolLiquidity_shares:
  "(parseFloat (pool_sharesBalance P account pool) < parseFloat shares \<longrightarrow>
      fst (removePoolLiquidity P account pool shares minDT minOcean s) = None
      \<and> filter is_transaction
          (issued s (snd (removePoolLiquidity P account pool shares minDT minOcean s))) = [])
   \<and> (parseFloat (pool_sharesBalance P account pool) = parseFloat shares \<longrightarrow>
        issued s (snd (removePoolLiquidity P account pool shares minDT minOcean s)) =
          [LedgerRead ''sharesBalance'',
           ExitPool account pool
             (number_to_string (round_double (parseFloat shares * round_double (9999 / 10000))))
             [default_zero minDT, default_zero minOcean]])
   \<and> (0 \<le> pool_sharesBalance P account pool \<longrightarrow>
        (\<forall>a p sh mins.
           ExitPool a p sh mins
             \<in> set (issued s (snd (removePoolLiquidity P account pool shares minDT minOcean s)))
           \<longrightarrow> parseFloat sh \<le> parseFloat (pool_sharesBalance P account pool)))"
proof (intro conjI impI allI)
  assume "parseFloat (pool_sharesBalance P account pool) < parseFloat shares"
  then show "fst (removePoolLiquidity P account pool shares minDT minOcean s) = None"
    and "filter is_transaction
          (issued s (snd (removePoolLiquidity P account pool shares minDT minOcean s))) = []"
    by (simp_all add: removePoolLiquidity_def helper_eqs Let_def)
next
  assume "parseFloat (pool_sharesBalance P account pool) = parseFloat shares"
  then show "issued s (snd (removePoolLiquidity P account pool shares minDT minOcean s)) =
          [LedgerRead ''sharesBalance'',
           ExitPool account pool
             (number_to_string (round_double (parseFloat shares * round_double (9999 / 10000))))
             [default_zero minDT, default_zero minOcean]]"
    by (simp add: removePoolLiquidity_def helper_eqs Let_def default_zero_def)
next
  fix a p sh mins
  assume nonneg: "0 \<le> pool_sharesBalance P account pool"
    and ex: "ExitPool a p sh mins
      \<in> set (issued s (snd (removePoolLiquidity P account pool shares minDT minOcean s)))"
  have bal: "0 \<le> parseFloat (pool_sharesBalance P account pool)"
    using nonneg by (simp add: parseFloat_def round_double_nonneg)
  consider (more) "parseFloat (pool_sharesBalance P account pool) < parseFloat shares"
    | (same) "parseFloat (pool_sharesBalance P account pool) = parseFloat shares"
    | (less) "parseFloat shares < parseFloat (pool_sharesBalance P account pool)"
    by linarith
  then show "parseFloat sh \<le> parseFloat (pool_sharesBalance P account pool)"
  proof cases
    case more
    then show ?thesis
      using ex by (simp add: removePoolLiquidity_def helper_eqs Let_def)
  next
    case same
    then have "sh = number_to_string
        (round_double (parseFloat shares * round_double (9999 / 10000)))"
      using ex by (simp add: removePoolLiquidity_def helper_eqs Let_def)
    then show ?thesis
      using reduced_shares_le [of shares] bal same by simp
  next
    case less
    then have "sh = shares"
      using ex by (simp add: removePoolLiquidity_def helper_eqs Let_def)
    then show ?thesis using less by simp
  qed
qed

theorem removePoolLiquidity_shares_witness:
  "fst (removePoolLiquidity P0 ''alice'' ''pool'' 11 None None s0) = None
   \<and> issued s0 (snd (removePoolLiquidity P0 ''alice'' ''pool'' 10 None None s0)) =
       [LedgerRead ''sharesBalance'', ExitPool ''alice'' ''pool'' (9999 / 1000) [0, 0]]
   \<and> parseFloat (9999 / 1000) \<le> parseFloat (pool_sharesBalance P0 ''alice'' ''pool'')"
proof -
  have a: "parseFloat (pool_sharesBalance P0 ''alice'' ''pool'') < parseFloat 11"
    by (simp add: P0_def number_simps)
  have b: "parseFloat (pool_sharesBalance P0 ''alice'' ''pool'') = parseFloat 10"
    by (simp add: P0_def)
  have c: "0 \<le> pool_sharesBalance P0 ''alice'' ''pool''"
    by (simp add: P0_def)
  have v: "number_to_string (round_double (parseFloat 10 * round_double (9999 / 10000))) =
      9999 / 1000"
    by (simp add: number_simps double_facts)
  have m: "ExitPool ''alice'' ''pool'' (9999 / 1000) [0, 0]
      \<in> set [LedgerRead ''sharesBalance'', ExitPool ''alice'' ''pool'' (9999 / 1000) [0, 0]]"
    by simp
  from removePoolLiquidity_shares [of P0 "''alice''" "''pool''" 11 None None s0] a
  have 1: "fst (removePoolLiquidity P0 ''alice'' ''pool'' 11 None None s0) = None"
    by blast
  from removePoolLiquidity_shares [of P0 "''alice''" "''pool''" 10 None None s0] b
  have 2: "issued s0 (snd (removePoolLiquidity P0 ''alice'' ''pool'' 10 None None s0)) =
       [LedgerRead ''sharesBalance'', ExitPool ''alice'' ''pool'' (9999 / 1000) [0, 0]]"
    by (simp add: default_zero_def v)
  from removePoolLiquidity_shares [of P0 "''alice''" "''pool''" 10 None None s0] c
  have "\<forall>a p sh mins.
           ExitPool a p sh mins
             \<in> set (issued s0 (snd (removePoolLiquidity P0 ''alice'' ''pool'' 10 None None s0)))
           \<longrightarrow> parseFloat sh \<le> parseFloat (pool_sharesBalance P0 ''alice'' ''pool'')"
    by blast
  with m have 3: "parseFloat (9999 / 1000) \<le> parseFloat (pool_sharesBalance P0 ''alice'' ''pool'')"
    unfolding 2 by blast
  from 1 2 3 show ?thesis by blast
qed

text \<open>
  C2 as stated rejects every \<^verbatim>\<open>poolShares\<close> above the balance. On the example ledger
  the balance is \<^verbatim>\<open>'10'\<close>; \<^verbatim>\<open>poolShares = '10.000000000000000001'\<close> exceeds it, but
  \<^verbatim>\<open>parseFloat\<close> reads both as 10, and the call issues the exit, for \<^verbatim>\<open>'9.999'\<close>.
\<close>

theorem removePoolLiquidity_excess_exits:
  "pool_sharesBalance P0 ''alice'' ''pool'' < 10000000000000000001 / 10 ^ 18
   \<and> fst (removePoolLiquidity P0 ''alice'' ''pool'' (10000000000000000001 / 10 ^ 18) None None s0)
       = Some receipt0
   \<and> issued s0
        (snd (removePoolLiquidity P0 ''alice'' ''pool'' (10000000000000000001 / 10 ^ 18)
                None None s0)) =
       [LedgerRead ''sharesBalance'', ExitPool ''alice'' ''pool'' (9999 / 1000) [0, 0]]"
  by (simp add: removePoolLiquidity_def helper_eqs P0_defs number_simps double_facts)

text \<open>
  The factor is applied in doubles: for 23 shares the amount of the exit is
  \<^verbatim>\<open>'22.997700000000002'\<close>, not \<open>22.9977\<close>.
\<close>

lemma reduced_shares_are_rounded:
  "number_to_string (round_double (parseFloat 23 * round_double (9999 / 10000))) =
     22997700000000002 / 10 ^ 15"
  by (simp add: number_simps double_facts)

section \<open>The boundary adjustment of the single-asset exits\<close>

text \<open>
  The only transaction \<^verbatim>\<open>removeDTLiquidity\<close> and \<^verbatim>\<open>removeOceanLiquidity\<close> can
  issue is the exit, and it carries the caller's \<^verbatim>\<open>maximumPoolShares\<close> as given: the
  statement that multiplies it by 0.9999 is guarded by the condition under which the
  function has just returned.
\<close>

lemma removeDTLiquidity_transactions:
  "filter is_transaction (issued s (snd (removeDTLiquidity P account pool amt maxShares s))) =
     (if parseFloat (fst (getDTMaxRemoveLiquidity P pool s)) < parseFloat amt
         \<or> parseFloat (pool_sharesBalance P account pool) < parseFloat maxShares
         \<or> parseFloat maxShares < parseFloat (fst (getPoolSharesRequiredToRemoveDT P pool amt s))
      then []
      else [ExitswapExternAmountOut account pool (currentDT P pool (oceanAddress s)) amt maxShares])"
proof (cases "parseFloat (fst (getDTMaxRemoveLiquidity P pool s)) < parseFloat amt")
  case True
  then show ?thesis
    by (simp add: removeDTLiquidity_def helper_eqs split: if_splits)
next
  case False
  then show ?thesis
    by (simp add: removeDTLiquidity_def helper_eqs split: if_splits)
qed

lemma removeOceanLiquidity_transactions:
  "filter is_transaction (issued s (snd (removeOceanLiquidity P account pool amt maxShares s))) =
     (if oceanAddress s = None
         \<or> parseFloat (fst (getOceanMaxRemoveLiquidity P pool s)) < parseFloat amt
         \<or> parseFloat (pool_sharesBalance P account pool) < parseFloat maxShares
         \<or> parseFloat maxShares < parseFloat (fst (getPoolSharesRequiredToRemoveOcean P pool amt s))
      then []
      else [ExitswapExternAmountOut account pool (oceanAddress s) amt maxShares])"
proof (cases "parseFloat (fst (getOceanMaxRemoveLiquidity P pool s)) < parseFloat amt")
  case True
  then show ?thesis
    by (simp add: removeOceanLiquidity_def helper_eqs split: if_splits)
next
  case False
  then show ?thesis
    by (simp add: removeOceanLiquidity_def helper_eqs split: if_splits)
qed

text \<open>
  C1, on the code. On the example ledger removing one datatoken (or one OCEAN) needs 10
  shares. With \<^verbatim>\<open>maximumPoolShares\<close> equal to the 10 shares required, the exit is
  issued with the ceiling 10, not 9.999; with 10.001 shares required, just above the
  ceiling, the call fails with \<^verbatim>\<open>ERROR: Not enough poolShares\<close>.
\<close>

theorem single_asset_exit_at_boundary:
  "fst (getPoolSharesRequiredToRemoveDT P0 ''pool'' 1 s0) = 10
   \<and> fst (removeDTLiquidity P0 ''alice'' ''pool'' 1 10 s0) = Some receipt0
   \<and> last (trace (snd (removeDTLiquidity P0 ''alice'' ''pool'' 1 10 s0))) =
       ExitswapExternAmountOut ''alice'' ''pool'' (Some ''dt'') 1 10
   \<and> fst (getPoolSharesRequiredToRemoveOcean P0 ''pool'' 1 s0) = 10
   \<and> fst (removeOceanLiquidity P0 ''alice'' ''pool'' 1 10 s0) = Some receipt0
   \<and> last (trace (snd (removeOceanLiquidity P0 ''alice'' ''pool'' 1 10 s0))) =
       ExitswapExternAmountOut ''alice'' ''pool'' (Some ''ocean'') 1 10
   \<and> fst (getPoolSharesRequiredToRemoveDT P0 ''pool'' (10001 / 10000) s0) = 10001 / 1000
   \<and> fst (removeDTLiquidity P0 ''alice'' ''pool'' (10001 / 10000) 10 s0) = None
   \<and> last (trace (snd (removeDTLiquidity P0 ''alice'' ''pool'' (10001 / 10000) 10 s0))) =
       LoggerError ''ERROR: Not enough poolShares''"
  by (simp add: removeDTLiquidity_def removeOceanLiquidity_def helper_eqs P0_defs
      number_simps double_facts)

section \<open>What the operations return\<close>

lemma web3_toWei_Inl: "web3_toWei a = Inl e \<Longrightarrow> e = toWei_error"
  by (simp add: web3_toWei_def split: if_splits)

lemma buyDT_returns:
  "thrown (buyDT P account pool dtWanted maxOcean maxPrice s)
   \<or> rejected_null (buyDT P account pool dtWanted maxOcean maxPrice s)
   \<or> (fst (buyDT P account pool dtWanted maxOcean maxPrice s) =
        Inr (pool_swapExactAmountOut P account pool (oceanAddress s) maxOcean
          (currentDT P pool (oceanAddress s)) dtWanted maxPrice)
      \<and> last (trace (snd (buyDT P account pool dtWanted maxOcean maxPrice s))) =
          SwapExactAmountOut account pool (oceanAddress s) maxOcean
            (currentDT P pool (oceanAddress s)) dtWanted maxPrice)"
  by (auto simp: buyDT_def helper_eqs rejected_null_def thrown_def split: sum.splits
      dest: web3_toWei_Inl)

lemma sellDT_returns:
  "thrown (sellDT P account pool dtAmount oceanWanted maxPrice s)
   \<or> rejected_null (sellDT P account pool dtAmount oceanWanted maxPrice s)
   \<or> (fst (sellDT P account pool dtAmount oceanWanted maxPrice s) =
        Inr (pool_swapExactAmountIn P account pool (currentDT P pool (oceanAddress s)) dtAmount
          (oceanAddress s) oceanWanted maxPrice)
      \<and> last (trace (snd (sellDT P account pool dtAmount oceanWanted maxPrice s))) =
          SwapExactAmountIn account pool (currentDT P pool (oceanAddress s)) dtAmount
            (oceanAddress s) oceanWanted maxPrice)"
  by (auto simp: sellDT_def helper_eqs rejected_null_def thrown_def split: sum.splits
      dest: web3_toWei_Inl)

lemma addDTLiquidity_returns:
  "thrown (addDTLiquidity P account pool amt s)
   \<or> rejected_null (addDTLiquidity P account pool amt s)
   \<or> (fst (addDTLiquidity P account pool amt s) =
        Inr (pool_joinswapExternAmountIn P account pool (currentDT P pool (oceanAddress s)) amt 0)
      \<and> last (trace (snd (addDTLiquidity P account pool amt s))) =
          JoinswapExternAmountIn account pool (currentDT P pool (oceanAddress s)) amt 0)"
  by (auto simp: addDTLiquidity_def helper_eqs rejected_null_def thrown_def split: sum.splits
      dest: web3_toWei_Inl)

lemma addOceanLiquidity_returns:
  "thrown (addOceanLiquidity P account pool amt s)
   \<or> rejected_null (addOceanLiquidity P account pool amt s)
   \<or> (fst (addOceanLiquidity P account pool amt s) =
        Inr (pool_joinswapExternAmountIn P account pool (oceanAddress s) amt 0)
      \<and> last (trace (snd (addOceanLiquidity P account pool amt s))) =
          JoinswapExternAmountIn account pool (oceanAddress s) amt 0)"
  by (auto simp: addOceanLiquidity_def helper_eqs rejected_null_def thrown_def split: sum.splits
      dest: web3_toWei_Inl)

lemma removeDTLiquidity_returns:
  "rejected (removeDTLiquidity P account pool amt maxShares s)
   \<or> (fst (removeDTLiquidity P account pool amt maxShares s) =
        pool_exitswapExternAmountOut P account pool (currentDT P pool (oceanAddress s)) amt
          maxShares
      \<and> last (trace (snd (removeDTLiquidity P account pool amt maxShares s))) =
          ExitswapExternAmountOut account pool (currentDT P pool (oceanAddress s)) amt maxShares)"
  by (simp add: removeDTLiquidity_def helper_eqs rejected_def)

lemma removeOceanLiquidity_returns:
  "rejected (removeOceanLiquidity P account pool amt maxShares s)
   \<or> (fst (removeOceanLiquidity P account pool amt maxShares s) =
        pool_exitswapExternAmountOut P account pool (oceanAddress s) amt maxShares
      \<and> last (trace (snd (removeOceanLiquidity P account pool amt maxShares s))) =
          ExitswapExternAmountOut account pool (oceanAddress s) amt maxShares)"
  by (simp add: removeOceanLiquidity_def helper_eqs rejected_def)

lemma removePoolLiquidity_returns:
  "rejected (removePoolLiquidity P account pool shares minDT minOcean s)
   \<or> (\<exists>sh. fst (removePoolLiquidity P account pool shares minDT minOcean s) =
          pool_exitPool P account pool sh [default_zero minDT, default_zero minOcean]
        \<and> last (trace (snd (removePoolLiquidity P account pool shares minDT minOcean s))) =
            ExitPool account pool sh [default_zero minDT, default_zero minOcean])"
  by (simp add: removePoolLiquidity_def helper_eqs rejected_def Let_def default_zero_def)

lemma create_returns:
  "((fst (create P account dt dtAmount dtWeight oceanAmount fee s) = None
      \<or> fst (create P account dt dtAmount dtWeight oceanAmount fee s) = Some (Inr None))
     \<and> is_error_log (last (trace (snd (create P account dt dtAmount dtWeight oceanAmount fee s)))))
   \<or> fst (create P account dt dtAmount dtWeight oceanAmount fee s) = Some (Inl toWei_error)
   \<or> (\<exists>receipt dtAmountWei dtWeightWei oceanAmountWei oceanWeightWei feeWei.
        pool_createPool P account = Some receipt
        \<and> web3_toWei dtAmount = Inr dtAmountWei
        \<and> web3_toWei dtWeight = Inr dtWeightWei
        \<and> web3_toWei oceanAmount = Inr oceanAmountWei
        \<and> web3_toWei (number_to_string (round_double (10 - parseFloat dtWeight))) =
            Inr oceanWeightWei
        \<and> web3_toWei fee = Inr feeWei
        \<and> fst (create P account dt dtAmount dtWeight oceanAmount fee s) =
            Some (Inr (Some receipt))
        \<and> last (trace (snd (create P account dt dtAmount dtWeight oceanAmount fee s))) =
            Setup account (BPoolRegistered receipt) dt dtAmountWei dtWeightWei
              (oceanAddress s) oceanAmountWei oceanWeightWei feeWei)"
  by (auto simp: create_def helper_eqs Let_def split: option.splits sum.splits
      dest: web3_toWei_Inl)

text \<open>
  C7 (as amended). Every state-changing operation has one of three outcomes. It throws
  the error \<^verbatim>\<open>toWei\<close> raises for an amount with more than 18 decimals (the two
  removals and the full exit call no \<^verbatim>\<open>toWei\<close> and do not); or it is rejected, which
  means that it returns \<^verbatim>\<open>null\<close> (for \<^verbatim>\<open>create\<close>: \<^verbatim>\<open>null\<close> or a promise of
  \<^verbatim>\<open>null\<close>) after logging an error message; or it ends with its final transaction
  and returns what that transaction returned (for \<^verbatim>\<open>create\<close>: the receipt of
  \<^verbatim>\<open>createPool\<close>, after \<^verbatim>\<open>setup\<close>, whose weight of OCEAN is
  \<^verbatim>\<open>String(10 - parseFloat(dtWeight))\<close> in raw units).
\<close>

theorem operations_return_receipt_or_null:
  "(thrown (buyDT P account pool dtWanted maxOcean maxPrice s)
    \<or> rejected_null (buyDT P account pool dtWanted maxOcean maxPrice s)
    \<or> (fst (buyDT P account pool dtWanted maxOcean maxPrice s) =
         Inr (pool_swapExactAmountOut P account pool (oceanAddress s) maxOcean
           (currentDT P pool (oceanAddress s)) dtWanted maxPrice)
       \<and> last (trace (snd (buyDT P account pool dtWanted maxOcean maxPrice s))) =
           SwapExactAmountOut account pool (oceanAddress s) maxOcean
             (currentDT P pool (oceanAddress s)) dtWanted maxPrice))
   \<and> (thrown (sellDT P account pool dtAmount oceanWanted maxPrice s)
    \<or> rejected_null (sellDT P account pool dtAmount oceanWanted maxPrice s)
    \<or> (fst (sellDT P account pool dtAmount oceanWanted maxPrice s) =
         Inr (pool_swapExactAmountIn P account pool (currentDT P pool (oceanAddress s)) dtAmount
           (oceanAddress s) oceanWanted maxPrice)
       \<and> last (trace (snd (sellDT P account pool dtAmount oceanWanted maxPrice s))) =
           SwapExactAmountIn account pool (currentDT P pool (oceanAddress s)) dtAmount
             (oceanAddress s) oceanWanted maxPrice))
   \<and> (thrown (addDTLiquidity P account pool amt s)
    \<or> rejected_null (addDTLiquidity P account pool amt s)
    \<or> (fst (addDTLiquidity P account pool amt s) =
         Inr (pool_joinswapExternAmountIn P account pool (currentDT P pool (oceanAddress s))
           amt 0)
       \<and> last (trace (snd (addDTLiquidity P account pool amt s))) =
           JoinswapExternAmountIn account pool (currentDT P pool (oceanAddress s)) amt 0))
   \<and> (thrown (addOceanLiquidity P account pool amt s)
    \<or> rejected_null (addOceanLiquidity P account pool amt s)
    \<or> (fst (addOceanLiquidity P account pool amt s) =
         Inr (pool_joinswapExternAmountIn P account pool (oceanAddress s) amt 0)
       \<and> last (trace (snd (addOceanLiquidity P account pool amt s))) =
           JoinswapExternAmountIn account pool (oceanAddress s) amt 0))
   \<and> (rejected (removeDTLiquidity P account pool amt maxShares s)
    \<or> (fst (removeDTLiquidity P account pool amt maxShares s) =
         pool_exitswapExternAmountOut P account pool (currentDT P pool (oceanAddress s)) amt
           maxShares
       \<and> last (trace (snd (removeDTLiquidity P account pool amt maxShares s))) =
           ExitswapExternAmountOut account pool (currentDT P pool (oceanAddress s)) amt
             maxShares))
   \<and> (rejected (removeOceanLiquidity P account pool amt maxShares s)
    \<or> (fst (removeOceanLiquidity P account pool amt maxShares s) =
         pool_exitswapExternAmountOut P account pool (oceanAddress s) amt maxShares
       \<and> last (trace (snd (removeOceanLiquidity P account pool amt maxShares s))) =
           ExitswapExternAmountOut account pool (oceanAddress s) amt maxShares))
   \<and> (rejected (removePoolLiquidity P account pool shares minDT minOcean s)
    \<or> (\<exists>sh. fst (removePoolLiquidity P account pool shares minDT minOcean s) =
           pool_exitPool P account pool sh [default_zero minDT, default_zero minOcean]
         \<and> last (trace (snd (removePoolLiquidity P account pool shares minDT minOcean s))) =
             ExitPool account pool sh [default_zero minDT, default_zero minOcean]))
   \<and> (((fst (create P account dt dtAmount dtWeight oceanAmount fee s) = None
        \<or> fst (create P account dt dtAmount dtWeight oceanAmount fee s) = Some (Inr None))
       \<and> is_error_log
           (last (trace (snd (create P account dt dtAmount dtWeight oceanAmount fee s)))))
    \<or> fst (create P account dt dtAmount dtWeight oceanAmount fee s) = Some (Inl toWei_error)
    \<or> (\<exists>receipt dtAmountWei dtWeightWei oceanAmountWei oceanWeightWei feeWei.
         pool_createPool P account = Some receipt
         \<and> web3_toWei dtAmount = Inr dtAmountWei
         \<and> web3_toWei dtWeight = Inr dtWeightWei
         \<and> web3_toWei oceanAmount = Inr oceanAmountWei
         \<and> web3_toWei (number_to_string (round_double (10 - parseFloat dtWeight))) =
             Inr oceanWeightWei
         \<and> web3_toWei fee = Inr feeWei
         \<and> fst (create P account dt dtAmount dtWeight oceanAmount fee s) =
             Some (Inr (Some receipt))
         \<and> last (trace (snd (create P account dt dtAmount dtWeight oceanAmount fee s))) =
             Setup account (BPoolRegistered receipt) dt dtAmountWei dtWeightWei
               (oceanAddress s) oceanAmountWei oceanWeightWei feeWei))"
  by (intro conjI buyDT_returns sellDT_returns addDTLiquidity_returns addOceanLiquidity_returns
      removeDTLiquidity_returns removeOceanLiquidity_returns removePoolLiquidity_returns
      create_returns)

text \<open>
  The third outcome and the rounded weight, on the example ledger: a purchase whose
  \<^verbatim>\<open>maxOceanAmount\<close> has 19 decimals throws before \<^verbatim>\<open>approve\<close>, and
  \<^verbatim>\<open>create\<close> with the datatoken weight \<^verbatim>\<open>'8.6'\<close> sets the pool up with an OCEAN
  weight of \<^verbatim>\<open>'1.4000000000000004'\<close>.
\<close>

lemma toWei_of_19_decimals:
  "web3_toWei (200000000000000000001 / 10000000000000000000) = Inl toWei_error"
  by code_simp

lemma buyDT_throws_example:
  "buyDT P0 ''alice'' ''pool'' 2 (200000000000000000001 / 10 ^ 19) None s0 =
     (Inl toWei_error,
      \<lparr>oceanAddress = Some ''ocean'', dtAddress = Some ''dt'',
        trace = [LedgerRead ''getCurrentTokens'', LedgerRead ''getCurrentTokens'',
                 LedgerRead ''getReserve'', LedgerRead ''getCurrentTokens'',
                 LedgerRead ''getReserve'', LedgerRead ''getDenormalizedWeight'',
                 LedgerRead ''getReserve'', LedgerRead ''getDenormalizedWeight'',
                 LedgerRead ''getSwapFee'', LedgerRead ''calcInGivenOut'']\<rparr>)"
  by (simp add: buyDT_def helper_eqs P0_defs toWei_of_19_decimals number_simps double_facts)

lemma create_ocean_weight_example:
  "fst (create P0 ''alice'' ''dt'' 10 (86 / 10) 100 (1 / 100) s0) = Some (Inr (Some receipt0))
   \<and> last (trace (snd (create P0 ''alice'' ''dt'' 10 (86 / 10) 100 (1 / 100) s0))) =
       Setup ''alice'' ''pool'' ''dt'' 10000000000000000000 8600000000000000000 (Some ''ocean'')
         100000000000000000000 1400000000000000400 10000000000000000"
  by (simp add: create_def helper_eqs P0_defs web3_toWei_def Let_def number_simps double_facts)

text \<open>
  C7 as stated asks for a rejection that tells the kind of the failure. On the example
  ledger five rejections of different kinds (ocean address unset, input limit exceeded,
  withdrawal ceiling exceeded, not enough pool shares, swap fee too high) all return
  \<^verbatim>\<open>null\<close>; the messages they log differ.
\<close>

theorem rejections_indistinguishable:
  "fst (buyDT P0 ''alice'' ''pool'' 2 15 None s_unset) = Inr None
   \<and> last (trace (snd (buyDT P0 ''alice'' ''pool'' 2 15 None s_unset))) =
       LoggerError ''ERROR: undefined ocean token contract address''
   \<and> fst (buyDT P0 ''alice'' ''pool'' 2 15 None s0) = Inr None
   \<and> last (trace (snd (buyDT P0 ''alice'' ''pool'' 2 15 None s0))) =
       LoggerError ''ERROR: Not enough Ocean Tokens''
   \<and> fst (removeDTLiquidity P0 ''alice'' ''pool'' 5 10 s0) = None
   \<and> last (trace (snd (removeDTLiquidity P0 ''alice'' ''pool'' 5 10 s0))) =
       LoggerError ''ERROR: Too much reserve to remove''
   \<and> fst (removeDTLiquidity P0 ''alice'' ''pool'' 1 11 s0) = None
   \<and> last (trace (snd (removeDTLiquidity P0 ''alice'' ''pool'' 1 11 s0))) =
       LoggerError ''ERROR: Not enough poolShares''
   \<and> fst (create P0 ''alice'' ''dt'' 10 5 100 (2 / 10) s0) = None
   \<and> last (trace (snd (create P0 ''alice'' ''dt'' 10 5 100 (2 / 10) s0))) =
       LoggerError ''ERROR: Swap fee too high. The maximum allowed swapFee is 10%''"
  by (simp add: buyDT_def removeDTLiquidity_def create_def helper_eqs P0_defs
      number_simps double_facts)

end
